theory Spec2Isabelle
  imports Main
begin

section \<open>JSON values and the JavaScript operations the route handlers use\<close>

text \<open>
  The handlers of \<^verbatim>\<open>src/routes/eventRoutes.js\<close> work on values produced by
  \<^verbatim>\<open>JSON.parse\<close>: the request body (parsed by \<^verbatim>\<open>express.json()\<close>) and the document
  read from \<^verbatim>\<open>events.json\<close>. An object is the list of its own properties in order
  (keys are distinct after parsing). Numbers are modelled by integers: the handlers only
  test a number for truthiness (zero is falsy) and compare it with \<^verbatim>\<open>===\<close>.
  The value \<^verbatim>\<open>undefined\<close>, which reading an absent property yields, is \<open>None\<close>.
\<close>

datatype json =
    JNull
  | JBool bool
  | JNum int
  | JStr string
  | JArr "json list"
  | JObj "(string \<times> json) list"

type_synonym jsval = "json option"

text \<open>Exceptions: \<^verbatim>\<open>new Error(message)\<close> thrown by the code, and the engine's TypeError.\<close>

datatype js_error = Error string | TypeError string

text \<open>Truthiness, as \<^verbatim>\<open>!x\<close>, \<^verbatim>\<open>x || y\<close> and \<^verbatim>\<open>if (x)\<close> test it.\<close>

fun truthy :: "jsval \<Rightarrow> bool" where
  "truthy None = False"
| "truthy (Some JNull) = False"
| "truthy (Some (JBool b)) = b"
| "truthy (Some (JNum n)) = (n \<noteq> 0)"
| "truthy (Some (JStr s)) = (s \<noteq> [])"
| "truthy (Some (JArr xs)) = True"
| "truthy (Some (JObj ps)) = True"

text \<open>
  Strict equality \<^verbatim>\<open>a === b\<close>. Primitives are compared by value. Arrays and objects
  are compared by reference; every comparison in the handlers has one operand from the
  request and the other from the freshly parsed file, which are never the same
  reference, so the result is \<open>False\<close>.
\<close>

fun strict_eq :: "jsval \<Rightarrow> jsval \<Rightarrow> bool" where
  "strict_eq None None = True"
| "strict_eq (Some JNull) (Some JNull) = True"
| "strict_eq (Some (JBool a)) (Some (JBool b)) = (a = b)"
| "strict_eq (Some (JNum a)) (Some (JNum b)) = (a = b)"
| "strict_eq (Some (JStr a)) (Some (JStr b)) = (a = b)"
| "strict_eq a b = False"

fun primitive :: "json \<Rightarrow> bool" where
  "primitive (JArr xs) = False"
| "primitive (JObj ps) = False"
| "primitive v = True"

fun isArray :: "jsval \<Rightarrow> bool" where
  "isArray (Some (JArr xs)) = True"
| "isArray v = False"

text \<open>
  Reading a property \<^verbatim>\<open>v.k\<close> (for the keys the handlers read: \<^verbatim>\<open>id\<close>, \<^verbatim>\<open>eventName\<close>,
  \<^verbatim>\<open>date\<close>, none of which a prototype defines): on \<^verbatim>\<open>null\<close> the engine throws a
  TypeError (the message is V8's), on an object it is the own property or \<^verbatim>\<open>undefined\<close>,
  on any other parsed value it is \<^verbatim>\<open>undefined\<close>.
\<close>

fun js_get :: "json \<Rightarrow> string \<Rightarrow> js_error + jsval" where
  "js_get JNull k =
     Inl (TypeError (''Cannot read properties of null (reading '' @ [CHR 0x27] @ k @ [CHR 0x27] @ '')''))"
| "js_get (JObj ps) k = Inr (map_of ps k)"
| "js_get v k = Inr None"

text \<open>The same read where it cannot throw; used to state properties of stored records.\<close>

fun field :: "json \<Rightarrow> string \<Rightarrow> jsval" where
  "field (JObj ps) k = map_of ps k"
| "field v k = None"

text \<open>
  Property assignment \<^verbatim>\<open>o.k = v\<close> on an object: an existing property keeps its place
  and takes the new value, a new property is added at the end.
\<close>

fun set_prop :: "(string \<times> json) list \<Rightarrow> string \<Rightarrow> json \<Rightarrow> (string \<times> json) list" where
  "set_prop [] k v = [(k, v)]"
| "set_prop ((k', v') # ps) k v = (if k' = k then (k, v) # ps else (k', v') # set_prop ps k v)"

text \<open>
  The handlers assign only to \<^verbatim>\<open>events[index]\<close>, where \<^verbatim>\<open>index\<close> was found by
  \<^verbatim>\<open>e.id === id\<close>; such an element is an object (lemma \<open>findIndex_has_id\<close> below), so the
  second equation is never reached.
\<close>

fun assign :: "json \<Rightarrow> string \<Rightarrow> json \<Rightarrow> json" where
  "assign (JObj ps) k v = JObj (set_prop ps k v)"
| "assign e k v = e"

text \<open>
  An object literal as \<^verbatim>\<open>JSON.stringify\<close> renders it (both \<^verbatim>\<open>res.json\<close> and
  \<^verbatim>\<open>writeEvents\<close> do): a property whose value is \<^verbatim>\<open>undefined\<close> is left out.
\<close>

fun object_literal :: "(string \<times> jsval) list \<Rightarrow> (string \<times> json) list" where
  "object_literal [] = []"
| "object_literal ((k, None) # ps) = object_literal ps"
| "object_literal ((k, Some v) # ps) = (k, v) # object_literal ps"

text \<open>
  \<^verbatim>\<open>Array.prototype.find\<close>, \<^verbatim>\<open>findIndex\<close> and \<^verbatim>\<open>filter\<close> with a callback that may
  throw: the elements are visited in order and the first exception ends the call.
  \<^verbatim>\<open>findIndex\<close> returns \<open>None\<close> where JavaScript returns \<open>-1\<close>.
\<close>

fun array_find :: "(json \<Rightarrow> js_error + bool) \<Rightarrow> json list \<Rightarrow> js_error + jsval" where
  "array_find p [] = Inr None"
| "array_find p (e # es) =
     (case p e of
        Inl err \<Rightarrow> Inl err
      | Inr b \<Rightarrow> if b then Inr (Some e) else array_find p es)"

fun array_findIndex :: "(json \<Rightarrow> js_error + bool) \<Rightarrow> json list \<Rightarrow> js_error + nat option" where
  "array_findIndex p [] = Inr None"
| "array_findIndex p (e # es) =
     (case p e of
        Inl err \<Rightarrow> Inl err
      | Inr b \<Rightarrow>
          if b then Inr (Some 0)
          else (case array_findIndex p es of
                  Inl err \<Rightarrow> Inl err
                | Inr None \<Rightarrow> Inr None
                | Inr (Some i) \<Rightarrow> Inr (Some (Suc i))))"

fun array_filter :: "(json \<Rightarrow> js_error + bool) \<Rightarrow> json list \<Rightarrow> js_error + json list" where
  "array_filter p [] = Inr []"
| "array_filter p (e # es) =
     (case p e of
        Inl err \<Rightarrow> Inl err
      | Inr b \<Rightarrow>
          (case array_filter p es of
             Inl err \<Rightarrow> Inl err
           | Inr r \<Rightarrow> Inr (if b then e # r else r)))"

text \<open>
  Calling an array method \<^verbatim>\<open>events.m(...)\<close> on whatever \<^verbatim>\<open>readEvents\<close> returned:
  only an array has the method.
\<close>

fun array_method :: "string \<Rightarrow> json \<Rightarrow> js_error + json list" where
  "array_method m (JArr es) = Inr es"
| "array_method m JNull =
     Inl (TypeError (''Cannot read properties of null (reading '' @ [CHR 0x27] @ m @ [CHR 0x27] @ '')''))"
| "array_method m v = Inl (TypeError (''events.'' @ m @ '' is not a function''))"

section \<open>The data file\<close>

text \<open>
  The state of \<^verbatim>\<open>data/events.json\<close>, as \<^verbatim>\<open>readEvents\<close> can tell it apart:
  \<^item> \<open>Missing\<close>: \<^verbatim>\<open>fs.readFile\<close> rejects with code \<^verbatim>\<open>ENOENT\<close>;
  \<^item> \<open>Unreadable\<close>: \<^verbatim>\<open>fs.readFile\<close> rejects with any other code;
  \<^item> \<open>NotJson data\<close>: the file holds the text \<open>data\<close>, on which \<^verbatim>\<open>JSON.parse\<close> throws
    (the empty text and a text of white space are such texts);
  \<^item> \<open>Json v\<close>: the file holds a text that \<^verbatim>\<open>JSON.parse\<close> turns into \<open>v\<close> (such a text
    holds a value, so it is not blank).
  \<^verbatim>\<open>writeEvents\<close> stores \<^verbatim>\<open>JSON.stringify(events, null, 2)\<close>, which the next read
  parses back to the same value; the promises of \<^verbatim>\<open>fs.mkdir\<close> and \<^verbatim>\<open>fs.writeFile\<close>
  are taken to resolve.
\<close>

datatype data_file = Missing | Unreadable | NotJson string | Json json

text \<open>
  \<^verbatim>\<open>String.prototype.trim\<close> on a text whose code units are below 256: the white space
  and line terminators of ECMAScript in that range.
\<close>

definition white_space :: "char \<Rightarrow> bool" where
  "white_space c =
     (c \<in> set [CHR 0x09, CHR 0x0A, CHR 0x0B, CHR 0x0C, CHR 0x0D, CHR 0x20, CHR 0xA0])"

definition trim :: "string \<Rightarrow> string" where
  "trim s = rev (dropWhile white_space (rev (dropWhile white_space s)))"

definition readEvents :: "data_file \<Rightarrow> js_error + json" where
  "readEvents f =
     (case f of
        Missing \<Rightarrow> Inr (JArr [])
      | Unreadable \<Rightarrow> Inl (Error ''Failed to read events data (file may be corrupted).'')
      | NotJson data \<Rightarrow>
          if trim data = [] then Inr (JArr [])
          else Inl (Error ''Failed to read events data (file may be corrupted).'')
      | Json v \<Rightarrow> Inr v)"

definition writeEvents :: "json \<Rightarrow> data_file" where
  "writeEvents events = Json events"

section \<open>Identifiers\<close>

text \<open>
  \<^verbatim>\<open>generateId\<close> concatenates the decimal digits of \<^verbatim>\<open>Date.now()\<close>, a dash, and the
  decimal digits of \<^verbatim>\<open>Math.floor(Math.random() * 100000)\<close>. The clock value \<open>now\<close> and the
  floored draw \<open>r\<close> (a number below 100000) are inputs of the model. \<open>dec\<close> is the
  conversion of a non-negative integer to its decimal text, which is how JavaScript
  prints the integers that occur here (those below \<open>10\<^sup>2\<^sup>1\<close>).
\<close>

text \<open>\<open>digit\<close> is only applied to numbers below ten.\<close>

definition digit :: "nat \<Rightarrow> char" where
  "digit d = ''0123456789'' ! d"

fun dec :: "nat \<Rightarrow> string" where
  "dec n = (if n < 10 then [digit n] else dec (n div 10) @ [digit (n mod 10)])"

declare dec.simps [simp del]

definition generateId :: "nat \<Rightarrow> nat \<Rightarrow> string" where
  "generateId now r = dec now @ ''-'' @ dec r"

section \<open>Responses and the error middleware\<close>

record response =
  status :: nat
  body :: json

definition error_body :: "string \<Rightarrow> json" where
  "error_body msg = JObj [(''error'', JStr msg)]"

text \<open>
  The error middleware of the application: no error raised here carries a
  \<^verbatim>\<open>statusCode\<close>, so the status is 500; the body is
  \<^verbatim>\<open>{error: err.message || "Internal Server Error"}\<close>.
\<close>

fun message :: "js_error \<Rightarrow> string" where
  "message (Error m) = m"
| "message (TypeError m) = m"

definition errorHandler :: "js_error \<Rightarrow> response" where
  "errorHandler err =
     \<lparr>status = 500,
      body = error_body (if message err \<noteq> [] then message err else ''Internal Server Error'')\<rparr>"

section \<open>The route handlers\<close>

text \<open>
  A handler takes the request (path parameter, parsed body: the properties of the JSON
  object sent) and the file, and returns the response and the file afterwards. An
  exception inside \<^verbatim>\<open>try\<close> goes through \<^verbatim>\<open>next(err)\<close> to the error middleware.
\<close>

subsection \<open>POST /api/events\<close>

text \<open>The callback of \<^verbatim>\<open>events.find\<close>: \<^verbatim>\<open>e.eventName === eventName && e.date === date\<close>.\<close>

definition same_name_date :: "jsval \<Rightarrow> jsval \<Rightarrow> json \<Rightarrow> js_error + bool" where
  "same_name_date eventName date e =
     (case js_get e ''eventName'' of
        Inl err \<Rightarrow> Inl err
      | Inr n \<Rightarrow>
          if strict_eq n eventName
          then (case js_get e ''date'' of
                  Inl err \<Rightarrow> Inl err
                | Inr d \<Rightarrow> Inr (strict_eq d date))
          else Inr False)"

text \<open>\<^verbatim>\<open>Array.isArray(tags) ? tags : tags ? [tags] : []\<close>\<close>

fun create_tags :: "jsval \<Rightarrow> json" where
  "create_tags (Some (JArr xs)) = JArr xs"
| "create_tags None = JArr []"
| "create_tags (Some v) = (if truthy (Some v) then JArr [v] else JArr [])"

text \<open>The object literal \<^verbatim>\<open>newEvent\<close>; \<^verbatim>\<open>description || ""\<close> is written out.\<close>

definition newEvent :: "string \<Rightarrow> jsval \<Rightarrow> jsval \<Rightarrow> jsval \<Rightarrow> jsval \<Rightarrow> jsval \<Rightarrow> json" where
  "newEvent newId eventName date location description tags =
     JObj (object_literal
       [(''id'', Some (JStr newId)),
        (''eventName'', eventName),
        (''date'', date),
        (''location'', location),
        (''description'', if truthy description then description else Some (JStr '''')),
        (''tags'', Some (create_tags tags))])"

definition post_events :: "nat \<Rightarrow> nat \<Rightarrow> (string \<times> json) list \<Rightarrow> data_file \<Rightarrow> response \<times> data_file" where
  "post_events now r reqBody f =
     (let eventName = map_of reqBody ''eventName'';
          date = map_of reqBody ''date'';
          location = map_of reqBody ''location'';
          description = map_of reqBody ''description'';
          tags = map_of reqBody ''tags''
      in
      if \<not> truthy eventName \<or> \<not> truthy date \<or> \<not> truthy location then
        (\<lparr>status = 400,
          body = error_body ''eventName, date, and location are required.''\<rparr>, f)
      else
        (case readEvents f of
           Inl err \<Rightarrow> (errorHandler err, f)
         | Inr events \<Rightarrow>
             (case array_method ''find'' events of
                Inl err \<Rightarrow> (errorHandler err, f)
              | Inr es \<Rightarrow>
                  (case array_find (same_name_date eventName date) es of
                     Inl err \<Rightarrow> (errorHandler err, f)
                   | Inr duplicate \<Rightarrow>
                       if truthy duplicate then
                         (\<lparr>status = 409,
                           body = error_body
                             ''An event with the same eventName and date already exists.''\<rparr>, f)
                       else
                         (let ev = newEvent (generateId now r) eventName date location
                                     description tags
                          in (\<lparr>status = 201, body = ev\<rparr>,
                              writeEvents (JArr (es @ [ev]))))))))"

subsection \<open>GET /api/events\<close>

definition get_events :: "data_file \<Rightarrow> response \<times> data_file" where
  "get_events f =
     (case readEvents f of
        Inl err \<Rightarrow> (errorHandler err, f)
      | Inr events \<Rightarrow> (\<lparr>status = 200, body = events\<rparr>, f))"

subsection \<open>PUT /api/events/:id\<close>

text \<open>The callback of \<^verbatim>\<open>events.findIndex\<close>: \<^verbatim>\<open>e.id === id\<close>.\<close>

definition has_id :: "string \<Rightarrow> json \<Rightarrow> js_error + bool" where
  "has_id i e =
     (case js_get e ''id'' of
        Inl err \<Rightarrow> Inl err
      | Inr v \<Rightarrow> Inr (strict_eq v (Some (JStr i))))"

text \<open>
  The four conditional assignments to \<^verbatim>\<open>events[index]\<close>, in the order of the source.
\<close>

definition apply_fields :: "jsval \<Rightarrow> jsval \<Rightarrow> jsval \<Rightarrow> jsval \<Rightarrow> json \<Rightarrow> json" where
  "apply_fields location description date tags e =
     (let e1 = (case location of None \<Rightarrow> e | Some v \<Rightarrow> assign e ''location'' v);
          e2 = (case description of None \<Rightarrow> e1 | Some v \<Rightarrow> assign e1 ''description'' v);
          e3 = (case date of None \<Rightarrow> e2 | Some v \<Rightarrow> assign e2 ''date'' v);
          e4 = (case tags of
                  None \<Rightarrow> e3
                | Some v \<Rightarrow> assign e3 ''tags'' (if isArray tags then v else JArr [v]))
      in e4)"

text \<open>
  In the source \<^verbatim>\<open>rest\<close> holds the properties of the body other than the five named
  ones, so \<^verbatim>\<open>rest.id\<close> is the body's \<^verbatim>\<open>id\<close>.
\<close>

definition put_event :: "string \<Rightarrow> (string \<times> json) list \<Rightarrow> data_file \<Rightarrow> response \<times> data_file" where
  "put_event i reqBody f =
     (let location = map_of reqBody ''location'';
          description = map_of reqBody ''description'';
          tags = map_of reqBody ''tags'';
          date = map_of reqBody ''date'';
          eventName = map_of reqBody ''eventName'';
          rest_id = map_of reqBody ''id''
      in
      if truthy eventName then
        (\<lparr>status = 400,
          body = error_body ''eventName cannot be updated for an existing event.''\<rparr>, f)
      else if truthy rest_id then
        (\<lparr>status = 400,
          body = error_body ''id cannot be modified for an existing event.''\<rparr>, f)
      else if location = None \<and> description = None \<and> tags = None \<and> date = None then
        (\<lparr>status = 400,
          body = error_body
            ''Provide at least one field to update: location, description, tags, or date.''\<rparr>, f)
      else
        (case readEvents f of
           Inl err \<Rightarrow> (errorHandler err, f)
         | Inr events \<Rightarrow>
             (case array_method ''findIndex'' events of
                Inl err \<Rightarrow> (errorHandler err, f)
              | Inr es \<Rightarrow>
                  (case array_findIndex (has_id i) es of
                     Inl err \<Rightarrow> (errorHandler err, f)
                   | Inr None \<Rightarrow>
                       (\<lparr>status = 404, body = error_body ''Event not found.''\<rparr>, f)
                   | Inr (Some index) \<Rightarrow>
                       (let es' = es[index := apply_fields location description date tags
                                                (es ! index)]
                        in (\<lparr>status = 200, body = es' ! index\<rparr>,
                            writeEvents (JArr es')))))))"

subsection \<open>DELETE /api/events/:id\<close>

text \<open>The callback of \<^verbatim>\<open>events.filter\<close>: \<^verbatim>\<open>e.id !== id\<close>.\<close>

definition lacks_id :: "string \<Rightarrow> json \<Rightarrow> js_error + bool" where
  "lacks_id i e =
     (case js_get e ''id'' of
        Inl err \<Rightarrow> Inl err
      | Inr v \<Rightarrow> Inr (\<not> strict_eq v (Some (JStr i))))"

definition delete_event :: "string \<Rightarrow> data_file \<Rightarrow> response \<times> data_file" where
  "delete_event i f =
     (case readEvents f of
        Inl err \<Rightarrow> (errorHandler err, f)
      | Inr events \<Rightarrow>
          (case array_method ''findIndex'' events of
             Inl err \<Rightarrow> (errorHandler err, f)
           | Inr es \<Rightarrow>
               (case array_findIndex (has_id i) es of
                  Inl err \<Rightarrow> (errorHandler err, f)
                | Inr None \<Rightarrow>
                    (\<lparr>status = 404, body = error_body ''Event not found.''\<rparr>, f)
                | Inr (Some index) \<Rightarrow>
                    (case array_filter (lacks_id i) es of
                       Inl err \<Rightarrow> (errorHandler err, f)
                     | Inr updated \<Rightarrow>
                         (\<lparr>status = 200,
                           body = JObj [(''message'', JStr ''Event deleted successfully.'')]\<rparr>,
                          writeEvents (JArr updated))))))"

section \<open>Properties of the JavaScript operations\<close>

lemma strict_eq_imp_eq: "strict_eq a b \<Longrightarrow> a = b"
  by (induction a b rule: strict_eq.induct) auto

lemma strict_eq_primitive: "primitive v \<Longrightarrow> strict_eq a (Some v) = (a = Some v)"
  by (cases v; cases a; (cases "the a")?) auto

lemma strict_eq_JStr [simp]: "strict_eq a (Some (JStr s)) = (a = Some (JStr s))"
  by (simp add: strict_eq_primitive)

lemma js_get_field: "e \<noteq> JNull \<Longrightarrow> js_get e k = Inr (field e k)"
  by (cases e) auto

lemma has_id_field: "e \<noteq> JNull \<Longrightarrow> has_id i e = Inr (field e ''id'' = Some (JStr i))"
  by (simp add: has_id_def js_get_field)

lemma lacks_id_field: "e \<noteq> JNull \<Longrightarrow> lacks_id i e = Inr (field e ''id'' \<noteq> Some (JStr i))"
  by (simp add: lacks_id_def js_get_field)

lemma has_id_True: "has_id i e = Inr True \<Longrightarrow> field e ''id'' = Some (JStr i) \<and> (\<exists>ps. e = JObj ps)"
  by (cases e) (auto simp: has_id_def)

lemma has_id_False: "has_id i e = Inr False \<Longrightarrow> field e ''id'' \<noteq> Some (JStr i)"
  by (cases e) (auto simp: has_id_def)

lemma same_name_date_field:
  "e \<noteq> JNull \<Longrightarrow> same_name_date n d e =
     Inr (strict_eq (field e ''eventName'') n \<and> strict_eq (field e ''date'') d)"
  by (simp add: same_name_date_def js_get_field)

lemma array_find_no_null:
  "JNull \<notin> set es \<Longrightarrow> array_find (same_name_date n d) es =
     Inr (List.find (\<lambda>e. strict_eq (field e ''eventName'') n \<and> strict_eq (field e ''date'') d) es)"
  by (induction es) (auto simp: same_name_date_field)

lemma findIndex_has_id:
  "array_findIndex (has_id i) es = Inr (Some index) \<Longrightarrow>
     index < length es \<and> field (es ! index) ''id'' = Some (JStr i) \<and> (\<exists>ps. es ! index = JObj ps)
     \<and> (\<forall>j<index. field (es ! j) ''id'' \<noteq> Some (JStr i))"
proof (induction es arbitrary: index)
  case Nil
  then show ?case by simp
next
  case (Cons e es)
  show ?case
  proof (cases "has_id i e")
    case (Inl err)
    with Cons.prems show ?thesis by simp
  next
    case (Inr b)
    show ?thesis
    proof (cases b)
      case True
      with Inr Cons.prems have "index = 0" by simp
      with True Inr has_id_True [of i e] show ?thesis by simp
    next
      case False
      with Inr Cons.prems obtain index' where
        r: "array_findIndex (has_id i) es = Inr (Some index')" and i: "index = Suc index'"
        by (auto split: sum.splits option.splits)
      from Cons.IH [OF r] False Inr has_id_False [of i e] i show ?thesis
        by (auto simp: less_Suc_eq_0_disj)
    qed
  qed
qed

lemma findIndex_absent:
  "JNull \<notin> set es \<Longrightarrow> \<forall>e\<in>set es. field e ''id'' \<noteq> Some (JStr i) \<Longrightarrow>
     array_findIndex (has_id i) es = Inr None"
  by (induction es) (auto simp: has_id_field)

lemma findIndex_present:
  "JNull \<notin> set es \<Longrightarrow> \<exists>e\<in>set es. field e ''id'' = Some (JStr i) \<Longrightarrow>
     \<exists>index. array_findIndex (has_id i) es = Inr (Some index)"
proof (induction es)
  case Nil
  then show ?case by simp
next
  case (Cons a es)
  show ?case
  proof (cases "field a ''id'' = Some (JStr i)")
    case True
    with Cons.prems show ?thesis by (auto simp: has_id_field)
  next
    case False
    with Cons.prems have "\<exists>e\<in>set es. field e ''id'' = Some (JStr i)" by auto
    with Cons.IH Cons.prems obtain index where "array_findIndex (has_id i) es = Inr (Some index)"
      by auto
    with False Cons.prems show ?thesis by (auto simp: has_id_field)
  qed
qed

lemma array_filter_no_null:
  "JNull \<notin> set es \<Longrightarrow>
     array_filter (lacks_id i) es = Inr (filter (\<lambda>e. field e ''id'' \<noteq> Some (JStr i)) es)"
  by (induction es) (auto simp: lacks_id_field)

lemma map_of_set_prop: "map_of (set_prop ps k v) k' = (if k' = k then Some v else map_of ps k')"
  by (induction ps) auto

lemma trim_empty_iff: "trim s = [] \<longleftrightarrow> list_all white_space s"
proof -
  have "trim s = [] \<longleftrightarrow> (\<forall>c\<in>set (dropWhile white_space s). white_space c)"
    by (simp add: trim_def dropWhile_eq_Nil_conv)
  also have "\<dots> \<longleftrightarrow> dropWhile white_space s = []"
  proof
    assume a: "\<forall>c\<in>set (dropWhile white_space s). white_space c"
    show "dropWhile white_space s = []"
    proof (rule ccontr)
      assume "dropWhile white_space s \<noteq> []"
      then have "\<not> white_space (hd (dropWhile white_space s))"
        by (rule hd_dropWhile)
      moreover from \<open>dropWhile white_space s \<noteq> []\<close>
      have "hd (dropWhile white_space s) \<in> set (dropWhile white_space s)" by simp
      ultimately show False using a by blast
    qed
  next
    assume "dropWhile white_space s = []"
    then show "\<forall>c\<in>set (dropWhile white_space s). white_space c"
      by (simp del: dropWhile_eq_Nil_conv)
  qed
  also have "\<dots> \<longleftrightarrow> list_all white_space s"
    by (simp add: dropWhile_eq_Nil_conv list_all_iff)
  finally show ?thesis .
qed

lemma filter_removes_one:
  "distinct (map g es) \<Longrightarrow> index < length es \<Longrightarrow> g (es ! index) = a \<Longrightarrow>
     filter (\<lambda>e. g e \<noteq> a) es = take index es @ drop (Suc index) es"
proof (induction es arbitrary: index)
  case Nil
  then show ?case by simp
next
  case (Cons e es)
  show ?case
  proof (cases index)
    case 0
    with Cons.prems have ge: "g e = a" by simp
    from Cons.prems have "g e \<notin> g ` set es" by simp
    with ge have "\<forall>x\<in>set es. g x \<noteq> a" by blast
    with 0 ge show ?thesis by simp
  next
    case (Suc n)
    with Cons.prems have "g e \<noteq> a" by auto
    with Suc Cons.prems Cons.IH [of n] show ?thesis by simp
  qed
qed

lemma digit_code: "a < 10 \<Longrightarrow> of_char (digit a) = (48 + a :: nat)"
proof -
  assume "a < 10"
  then have "a = 0 \<or> a = 1 \<or> a = 2 \<or> a = 3 \<or> a = 4 \<or> a = 5 \<or> a = 6 \<or> a = 7 \<or> a = 8 \<or> a = 9"
    by arith
  then show ?thesis
    by (elim disjE) (simp_all add: digit_def)
qed

lemma digit_inj: "a < 10 \<Longrightarrow> b < 10 \<Longrightarrow> digit a = digit b \<Longrightarrow> a = b"
proof -
  assume a: "a < 10" and b: "b < 10" and e: "digit a = digit b"
  from e have "(of_char (digit a) :: nat) = of_char (digit b)" by simp
  with a b show ?thesis by (simp add: digit_code)
qed

lemma digit_not_dash: "a < 10 \<Longrightarrow> digit a \<noteq> CHR ''-''"
proof
  assume a: "a < 10" and e: "digit a = CHR ''-''"
  from e have "(of_char (digit a) :: nat) = of_char (CHR ''-'')" by simp
  with a show False by (simp add: digit_code)
qed

lemma dec_not_Nil: "dec n \<noteq> []"
  by (subst dec.simps) simp

lemma dash_notin_dec: "CHR ''-'' \<notin> set (dec n)"
proof (induction n rule: dec.induct)
  case (1 n)
  show ?case
  proof (cases "n < 10")
    case True
    then show ?thesis
      using digit_not_dash [of n] by (subst dec.simps) auto
  next
    case False
    then have "n mod 10 < 10" by simp
    with False 1 show ?thesis
      using digit_not_dash [of "n mod 10"] by (subst dec.simps) auto
  qed
qed

lemma dec_inj: "dec m = dec n \<Longrightarrow> m = n"
proof (induction m arbitrary: n rule: dec.induct)
  case (1 m)
  show ?case
  proof (cases "m < 10")
    case m: True
    show ?thesis
    proof (cases "n < 10")
      case True
      with m "1.prems" have "digit m = digit n"
        by (simp add: dec.simps [of m] dec.simps [of n])
      with m True show ?thesis by (rule digit_inj)
    next
      case False
      with m "1.prems" have "[digit m] = dec (n div 10) @ [digit (n mod 10)]"
        by (simp add: dec.simps [of m] dec.simps [of n])
      then have "dec (n div 10) = []" by simp
      with dec_not_Nil show ?thesis by blast
    qed
  next
    case m: False
    show ?thesis
    proof (cases "n < 10")
      case True
      with m "1.prems" have "dec (m div 10) @ [digit (m mod 10)] = [digit n]"
        by (simp add: dec.simps [of m] dec.simps [of n])
      then have "dec (m div 10) = []" by simp
      with dec_not_Nil show ?thesis by blast
    next
      case False
      with m "1.prems"
      have "dec (m div 10) @ [digit (m mod 10)] = dec (n div 10) @ [digit (n mod 10)]"
        by (simp add: dec.simps [of m] dec.simps [of n])
      then have d: "dec (m div 10) = dec (n div 10)" and e: "digit (m mod 10) = digit (n mod 10)"
        by simp_all
      from "1.IH" [OF m d] have "m div 10 = n div 10" .
      moreover from e have "m mod 10 = n mod 10"
        by (intro digit_inj) simp_all
      ultimately show ?thesis
        by (metis div_mult_mod_eq)
    qed
  qed
qed

lemma generateId_inj: "generateId t s = generateId now r \<longleftrightarrow> t = now \<and> s = r"
proof
  assume "generateId t s = generateId now r"
  then have "dec t @ CHR ''-'' # dec s = dec now @ CHR ''-'' # dec r"
    by (simp add: generateId_def)
  then have "dec t = dec now \<and> dec s = dec r"
    by (simp add: append_Cons_eq_iff dash_notin_dec)
  then show "t = now \<and> s = r"
    by (auto dest: dec_inj)
next
  assume "t = now \<and> s = r"
  then show "generateId t s = generateId now r" by simp
qed

lemma generateId_not_Nil: "generateId now r \<noteq> []"
  by (simp add: generateId_def)

lemma truthy_find:
  assumes "truthy n"
  shows "truthy (List.find (\<lambda>e. strict_eq (field e ''eventName'') n \<and> strict_eq (field e ''date'') d) es)
           = (\<exists>e\<in>set es. strict_eq (field e ''eventName'') n \<and> strict_eq (field e ''date'') d)"
    (is "truthy (List.find ?P es) = _")
proof (cases "List.find ?P es")
  case None
  then have "\<not> (\<exists>e\<in>set es. ?P e)" by (simp add: find_None_iff)
  with None show ?thesis by simp
next
  case (Some e)
  then have e: "e \<in> set es" and p: "?P e"
    by (auto simp: find_Some_iff)
  from p have "field e ''eventName'' = n" by (auto dest: strict_eq_imp_eq)
  with assms have "\<exists>ps. e = JObj ps" by (cases e) auto
  with Some e p show ?thesis by auto
qed

lemma post_events_store:
  assumes "readEvents f = Inr (JArr es)" and "JNull \<notin> set es"
      and "truthy (map_of reqBody ''eventName'')" and "truthy (map_of reqBody ''date'')"
      and "truthy (map_of reqBody ''location'')"
  shows "post_events now r reqBody f =
     (if \<exists>e\<in>set es. strict_eq (field e ''eventName'') (map_of reqBody ''eventName'')
                      \<and> strict_eq (field e ''date'') (map_of reqBody ''date'')
      then (\<lparr>status = 409,
              body = error_body ''An event with the same eventName and date already exists.''\<rparr>, f)
      else (\<lparr>status = 201,
              body = newEvent (generateId now r) (map_of reqBody ''eventName'')
                       (map_of reqBody ''date'') (map_of reqBody ''location'')
                       (map_of reqBody ''description'') (map_of reqBody ''tags'')\<rparr>,
            Json (JArr (es @ [newEvent (generateId now r) (map_of reqBody ''eventName'')
                       (map_of reqBody ''date'') (map_of reqBody ''location'')
                       (map_of reqBody ''description'') (map_of reqBody ''tags'')]))))"
  using assms
  by (simp add: post_events_def Let_def array_find_no_null truthy_find writeEvents_def)

lemma post_events_201:
  assumes "status (fst (post_events now r reqBody f)) = 201"
      and "readEvents f = Inr (JArr es)"
  shows "post_events now r reqBody f =
           (\<lparr>status = 201,
              body = newEvent (generateId now r) (map_of reqBody ''eventName'')
                       (map_of reqBody ''date'') (map_of reqBody ''location'')
                       (map_of reqBody ''description'') (map_of reqBody ''tags'')\<rparr>,
            Json (JArr (es @ [newEvent (generateId now r) (map_of reqBody ''eventName'')
                       (map_of reqBody ''date'') (map_of reqBody ''location'')
                       (map_of reqBody ''description'') (map_of reqBody ''tags'')])))
         \<and> truthy (map_of reqBody ''eventName'') \<and> truthy (map_of reqBody ''date'')
         \<and> truthy (map_of reqBody ''location'')
         \<and> (\<exists>dup. array_find (same_name_date (map_of reqBody ''eventName'')
                      (map_of reqBody ''date'')) es = Inr dup \<and> \<not> truthy dup)"
  using assms
  by (auto simp: post_events_def Let_def errorHandler_def writeEvents_def
           split: if_splits sum.splits)

lemma newEvent_fields:
  "newEvent i (Some n) (Some d) (Some l) description tags =
     JObj [(''id'', JStr i), (''eventName'', n), (''date'', d), (''location'', l),
           (''description'', case description of None \<Rightarrow> JStr []
                              | Some v \<Rightarrow> if truthy (Some v) then v else JStr []),
           (''tags'', create_tags tags)]"
  by (cases description) (simp_all add: newEvent_def)

lemma field_newEvent_id: "field (newEvent i n d l description tags) ''id'' = Some (JStr i)"
  by (simp add: newEvent_def)

lemma field_apply_fields:
  "field (apply_fields location description date tags (JObj ps)) k =
     (if k = ''tags'' \<and> tags \<noteq> None
        then Some (if isArray tags then the tags else JArr [the tags])
      else if k = ''date'' \<and> date \<noteq> None then date
      else if k = ''description'' \<and> description \<noteq> None then description
      else if k = ''location'' \<and> location \<noteq> None then location
      else map_of ps k)"
  by (cases location; cases description; cases date; cases tags)
     (simp_all add: apply_fields_def map_of_set_prop)

lemma field_apply_fields_frame:
  assumes "k \<notin> {''location'', ''description'', ''date'', ''tags''} \<or> m k = None"
  shows "field (apply_fields (m ''location'') (m ''description'') (m ''date'') (m ''tags'') (JObj ps)) k
     = map_of ps k"
proof -
  consider "k = ''location''" | "k = ''description''" | "k = ''date''" | "k = ''tags''"
    | "k \<noteq> ''location'' \<and> k \<noteq> ''description'' \<and> k \<noteq> ''date'' \<and> k \<noteq> ''tags''"
    by blast
  then show ?thesis
  proof cases
    case 1
    with assms have "m ''location'' = None" by simp
    with 1 show ?thesis by (simp add: field_apply_fields)
  next
    case 2
    with assms have "m ''description'' = None" by simp
    with 2 show ?thesis by (simp add: field_apply_fields)
  next
    case 3
    with assms have "m ''date'' = None" by simp
    with 3 show ?thesis by (simp add: field_apply_fields)
  next
    case 4
    with assms have "m ''tags'' = None" by simp
    with 4 show ?thesis by (simp add: field_apply_fields)
  next
    case 5
    then show ?thesis by (simp add: field_apply_fields)
  qed
qed

lemma field_apply_fields_given:
  assumes "k \<in> {''location'', ''description'', ''date''}" and "m k = Some v"
  shows "field (apply_fields (m ''location'') (m ''description'') (m ''date'') (m ''tags'') (JObj ps)) k
     = Some v"
proof -
  from assms(1) consider "k = ''location''" | "k = ''description''" | "k = ''date''"
    by blast
  then show ?thesis
  proof cases
    case 1
    with assms(2) show ?thesis by (simp add: field_apply_fields)
  next
    case 2
    with assms(2) show ?thesis by (simp add: field_apply_fields)
  next
    case 3
    with assms(2) show ?thesis by (simp add: field_apply_fields)
  qed
qed

lemma field_apply_fields_tags:
  assumes "tags = Some v"
  shows "field (apply_fields location description date tags (JObj ps)) ''tags'' =
           Some (if isArray (Some v) then v else JArr [v])"
  using assms by (simp add: field_apply_fields)

lemma put_event_store:
  assumes "readEvents f = Inr (JArr es)"
      and "array_findIndex (has_id i) es = Inr (Some index)"
      and "\<not> truthy (map_of reqBody ''eventName'')" and "\<not> truthy (map_of reqBody ''id'')"
      and "map_of reqBody ''location'' \<noteq> None \<or> map_of reqBody ''description'' \<noteq> None
             \<or> map_of reqBody ''tags'' \<noteq> None \<or> map_of reqBody ''date'' \<noteq> None"
  shows "put_event i reqBody f =
           (\<lparr>status = 200,
             body = es[index := apply_fields (map_of reqBody ''location'')
                       (map_of reqBody ''description'') (map_of reqBody ''date'')
                       (map_of reqBody ''tags'') (es ! index)] ! index\<rparr>,
            Json (JArr (es[index := apply_fields (map_of reqBody ''location'')
                       (map_of reqBody ''description'') (map_of reqBody ''date'')
                       (map_of reqBody ''tags'') (es ! index)])))"
  using assms by (auto simp: put_event_def Let_def writeEvents_def)

lemma put_event_invalid:
  assumes "truthy (map_of reqBody ''eventName'') \<or> truthy (map_of reqBody ''id'')
             \<or> (map_of reqBody ''location'' = None \<and> map_of reqBody ''description'' = None
                  \<and> map_of reqBody ''tags'' = None \<and> map_of reqBody ''date'' = None)"
  shows "snd (put_event i reqBody f) = f \<and> status (fst (put_event i reqBody f)) = 400"
  using assms by (auto simp: put_event_def Let_def)

lemma put_event_200:
  assumes "status (fst (put_event i reqBody f)) = 200"
      and "readEvents f = Inr (JArr es)"
  shows "\<exists>index. array_findIndex (has_id i) es = Inr (Some index)
           \<and> \<not> truthy (map_of reqBody ''eventName'') \<and> \<not> truthy (map_of reqBody ''id'')
           \<and> (map_of reqBody ''location'' \<noteq> None \<or> map_of reqBody ''description'' \<noteq> None
                \<or> map_of reqBody ''tags'' \<noteq> None \<or> map_of reqBody ''date'' \<noteq> None)"
  using assms
  by (auto simp: put_event_def Let_def errorHandler_def split: if_splits sum.splits option.splits)

lemma create_tags_cases:
  "\<exists>tv. create_tags t = JArr tv
     \<and> (\<forall>xs. t = Some (JArr xs) \<longrightarrow> tv = xs)
     \<and> (\<forall>v. t = Some v \<longrightarrow> \<not> isArray (Some v) \<longrightarrow> truthy (Some v) \<longrightarrow> tv = [v])
     \<and> (\<forall>v. t = Some v \<longrightarrow> \<not> isArray (Some v) \<longrightarrow> \<not> truthy (Some v) \<longrightarrow> tv = [])
     \<and> (t = None \<longrightarrow> tv = [])"
proof (cases t)
  case None
  then show ?thesis by simp
next
  case (Some v)
  then show ?thesis by (cases v) auto
qed

lemma truthy_Some: "truthy x \<Longrightarrow> \<exists>v. x = Some v"
  by (cases x) auto

section \<open>Request validation\<close>

text \<open>
  C6: a create request in which any of \<^verbatim>\<open>eventName\<close>, \<^verbatim>\<open>date\<close>, \<^verbatim>\<open>location\<close> is missing
  or empty is answered with 400 and the validation message. The handler tests \<^verbatim>\<open>!x\<close>:
  a missing property (\<open>None\<close>) and the empty string are falsy, as are \<^verbatim>\<open>null\<close>, \<^verbatim>\<open>false\<close>
  and zero. The answer is the same for every state of the file, also an unreadable one,
  and the file is returned as it was: the handler returns before \<^verbatim>\<open>readEvents\<close> and
  never reaches \<^verbatim>\<open>writeEvents\<close>.
\<close>

theorem create_missing_required:
  assumes "k \<in> {''eventName'', ''date'', ''location''}"
      and "\<not> truthy (map_of reqBody k)"
  shows "post_events now r reqBody f =
           (\<lparr>status = 400,
             body = error_body ''eventName, date, and location are required.''\<rparr>, f)"
  using assms by (auto simp: post_events_def Let_def)

theorem create_missing_required_witness:
  "post_events 1700000000000 42
     [(''eventName'', JStr ''Launch''), (''location'', JStr ''Hall'')] Unreadable =
     (\<lparr>status = 400,
       body = error_body ''eventName, date, and location are required.''\<rparr>, Unreadable)
   \<and> post_events 1700000000000 42
     [(''eventName'', JStr []), (''date'', JStr ''2025-06-01''), (''location'', JStr ''Hall'')]
     (Json (JArr [])) =
     (\<lparr>status = 400,
       body = error_body ''eventName, date, and location are required.''\<rparr>, Json (JArr []))"
  using create_missing_required [of "''date''"
          "[(''eventName'', JStr ''Launch''), (''location'', JStr ''Hall'')]"
          1700000000000 42 Unreadable]
        create_missing_required [of "''eventName''"
          "[(''eventName'', JStr []), (''date'', JStr ''2025-06-01''),
            (''location'', JStr ''Hall'')]"
          1700000000000 42 "Json (JArr [])"]
  by simp

text \<open>
  C7: an update request carrying none of \<^verbatim>\<open>location\<close>, \<^verbatim>\<open>description\<close>, \<^verbatim>\<open>date\<close>,
  \<^verbatim>\<open>tags\<close> is answered with 400 and the file is left as it was, whatever the id and the
  file are; for the empty body the message is the one asking for a field to update.
\<close>

theorem update_no_recognized_field:
  assumes "map_of reqBody ''location'' = None"
      and "map_of reqBody ''description'' = None"
      and "map_of reqBody ''date'' = None"
      and "map_of reqBody ''tags'' = None"
  shows "status (fst (put_event i reqBody f)) = 400 \<and> snd (put_event i reqBody f) = f
         \<and> put_event i [] f =
             (\<lparr>status = 400,
               body = error_body
                 ''Provide at least one field to update: location, description, tags, or date.''\<rparr>,
              f)"
  using assms by (simp add: put_event_def Let_def)

theorem update_no_recognized_field_witness:
  "status (fst (put_event ''1700000000000-42'' [(''note'', JStr ''x'')]
       (Json (JArr [JObj [(''id'', JStr ''1700000000000-42''), (''location'', JStr ''Hall'')]]))))
     = 400
   \<and> snd (put_event ''1700000000000-42'' [(''note'', JStr ''x'')]
       (Json (JArr [JObj [(''id'', JStr ''1700000000000-42''), (''location'', JStr ''Hall'')]])))
     = Json (JArr [JObj [(''id'', JStr ''1700000000000-42''), (''location'', JStr ''Hall'')]])"
  using update_no_recognized_field [of "[(''note'', JStr ''x'')]" "''1700000000000-42''"
          "Json (JArr [JObj [(''id'', JStr ''1700000000000-42''), (''location'', JStr ''Hall'')]])"]
  by simp

text \<open>
  C5, as stated, fails: the handler tests \<^verbatim>\<open>if (eventName)\<close> and \<^verbatim>\<open>if (rest.id)\<close>, so a
  body whose \<^verbatim>\<open>eventName\<close> is the empty string passes both tests; with a recognized
  field and an existing id the update is carried out and answered with 200.
\<close>

theorem update_immutable_counterexample:
  "map_of [(''eventName'', JStr []), (''location'', JStr ''Hall'')] ''eventName'' = Some (JStr [])
   \<and> put_event ''1700000000000-42'' [(''eventName'', JStr []), (''location'', JStr ''Hall'')]
       (Json (JArr [JObj [(''id'', JStr ''1700000000000-42''), (''eventName'', JStr ''Launch''),
                          (''location'', JStr ''Room'')]])) =
     (\<lparr>status = 200,
       body = JObj [(''id'', JStr ''1700000000000-42''), (''eventName'', JStr ''Launch''),
                    (''location'', JStr ''Hall'')]\<rparr>,
      Json (JArr [JObj [(''id'', JStr ''1700000000000-42''), (''eventName'', JStr ''Launch''),
                        (''location'', JStr ''Hall'')]]))"
  by (simp add: put_event_def readEvents_def writeEvents_def has_id_def apply_fields_def)

text \<open>
  C5, amended: an update request whose body carries a truthy \<^verbatim>\<open>eventName\<close> or a truthy
  \<^verbatim>\<open>id\<close> (a non-empty string, for one) is answered with 400 whatever the id in the path
  and the state of the file are, and the file is left as it was.
\<close>

theorem update_immutable:
  assumes "truthy (map_of reqBody ''eventName'') \<or> truthy (map_of reqBody ''id'')"
  shows "status (fst (put_event i reqBody f)) = 400 \<and> snd (put_event i reqBody f) = f"
  using assms by (auto simp add: put_event_def Let_def)

theorem update_immutable_witness:
  "status (fst (put_event ''no-such-id'' [(''eventName'', JStr ''X'')] Missing)) = 400
   \<and> snd (put_event ''no-such-id'' [(''eventName'', JStr ''X'')] Missing) = Missing
   \<and> status (fst (put_event ''7-1'' [(''id'', JStr ''7-2''), (''location'', JStr ''Hall'')]
        (Json (JArr [JObj [(''id'', JStr ''7-1'')]])))) = 400
   \<and> snd (put_event ''7-1'' [(''id'', JStr ''7-2''), (''location'', JStr ''Hall'')]
        (Json (JArr [JObj [(''id'', JStr ''7-1'')]]))) = Json (JArr [JObj [(''id'', JStr ''7-1'')]])"
  using update_immutable [of "[(''eventName'', JStr ''X'')]" "''no-such-id''" Missing]
        update_immutable [of "[(''id'', JStr ''7-2''), (''location'', JStr ''Hall'')]" "''7-1''"
          "Json (JArr [JObj [(''id'', JStr ''7-1'')]])"]
  by simp

section \<open>Reading the collection\<close>

text \<open>
  C9, as stated, fails: a file that is present, is not empty and is not JSON, but holds
  only white space (here one space), passes the test \<^verbatim>\<open>!data.trim()\<close>; the read
  returns the empty array and the response is 200, not a failure.
\<close>

theorem read_all_blank_counterexample:
  "get_events (NotJson '' '') = (\<lparr>status = 200, body = JArr []\<rparr>, NotJson '' '')
   \<and> '' '' \<noteq> ([] :: string)"
  by (simp add: get_events_def readEvents_def trim_def white_space_def)

text \<open>
  C9, amended: read-all answers 200 with the parsed document as it is (unfiltered, in file
  order); a missing file, an empty file and a file of white space only give the empty
  array; a file that holds anything else that \<^verbatim>\<open>JSON.parse\<close> rejects, or that cannot
  be read, gives 500 with the message of the error \<^verbatim>\<open>readEvents\<close> throws.
\<close>

theorem read_all:
  "get_events Missing = (\<lparr>status = 200, body = JArr []\<rparr>, Missing)
   \<and> get_events (NotJson []) = (\<lparr>status = 200, body = JArr []\<rparr>, NotJson [])
   \<and> (list_all white_space data \<longrightarrow>
        get_events (NotJson data) = (\<lparr>status = 200, body = JArr []\<rparr>, NotJson data))
   \<and> (\<not> list_all white_space data \<longrightarrow>
        get_events (NotJson data) =
          (\<lparr>status = 500,
            body = error_body ''Failed to read events data (file may be corrupted).''\<rparr>,
           NotJson data))
   \<and> get_events (Json v) = (\<lparr>status = 200, body = v\<rparr>, Json v)
   \<and> get_events Unreadable =
          (\<lparr>status = 500,
            body = error_body ''Failed to read events data (file may be corrupted).''\<rparr>,
           Unreadable)"
  by (simp add: get_events_def readEvents_def trim_empty_iff errorHandler_def)

theorem read_all_witness:
  "get_events (NotJson [CHR 0x0A]) = (\<lparr>status = 200, body = JArr []\<rparr>, NotJson [CHR 0x0A])
   \<and> get_events (NotJson ''[{'') =
          (\<lparr>status = 500,
            body = error_body ''Failed to read events data (file may be corrupted).''\<rparr>,
           NotJson ''[{'')"
  using read_all [of "[CHR 0x0A]"] read_all [of "''[{''"]
  by (simp add: white_space_def)

section \<open>Unknown ids and deletion\<close>

text \<open>
  C8, as stated, fails for updates: the body is validated before the file is read, so an
  update of an id that is not stored whose body carries no recognized field is answered
  400, not 404.
\<close>

theorem update_not_found_counterexample:
  "readEvents (Json (JArr [])) = Inr (JArr [])
   \<and> put_event ''no-such-id'' [] (Json (JArr [])) =
       (\<lparr>status = 400,
         body = error_body
           ''Provide at least one field to update: location, description, tags, or date.''\<rparr>,
        Json (JArr []))"
  by (simp add: put_event_def readEvents_def)

text \<open>
  C8, amended: on a stored collection of records (an array without \<^verbatim>\<open>null\<close>), a delete,
  or an update whose body passes the validation (no truthy \<^verbatim>\<open>eventName\<close> or \<^verbatim>\<open>id\<close>, at
  least one recognized field), that targets an id not stored is answered 404 and the file
  is left as it was. A delete of a stored id writes the collection without the records
  of that id, the others in their order, and answers 200 with the confirmation; deleting
  the same id again is answered 404. When the stored ids are distinct exactly one record
  is removed.
\<close>

theorem not_found_and_delete:
  assumes "readEvents f = Inr (JArr es)"
      and "JNull \<notin> set es"
  shows "((\<forall>e\<in>set es. field e ''id'' \<noteq> Some (JStr i)) \<longrightarrow>
            delete_event i f = (\<lparr>status = 404, body = error_body ''Event not found.''\<rparr>, f)
          \<and> (\<not> truthy (map_of reqBody ''eventName'') \<and> \<not> truthy (map_of reqBody ''id'')
               \<and> (map_of reqBody ''location'' \<noteq> None \<or> map_of reqBody ''description'' \<noteq> None
                    \<or> map_of reqBody ''tags'' \<noteq> None \<or> map_of reqBody ''date'' \<noteq> None) \<longrightarrow>
              put_event i reqBody f =
                (\<lparr>status = 404, body = error_body ''Event not found.''\<rparr>, f)))
       \<and> ((\<exists>e\<in>set es. field e ''id'' = Some (JStr i)) \<longrightarrow>
            delete_event i f =
              (\<lparr>status = 200, body = JObj [(''message'', JStr ''Event deleted successfully.'')]\<rparr>,
               Json (JArr (filter (\<lambda>e. field e ''id'' \<noteq> Some (JStr i)) es)))
          \<and> delete_event i (Json (JArr (filter (\<lambda>e. field e ''id'' \<noteq> Some (JStr i)) es))) =
              (\<lparr>status = 404, body = error_body ''Event not found.''\<rparr>,
               Json (JArr (filter (\<lambda>e. field e ''id'' \<noteq> Some (JStr i)) es)))
          \<and> (distinct (map (\<lambda>e. field e ''id'') es) \<longrightarrow>
               (\<exists>index<length es. field (es ! index) ''id'' = Some (JStr i)
                  \<and> filter (\<lambda>e. field e ''id'' \<noteq> Some (JStr i)) es =
                      take index es @ drop (Suc index) es)))"
proof (intro conjI impI)
  assume a: "\<forall>e\<in>set es. field e ''id'' \<noteq> Some (JStr i)"
  with assms show "delete_event i f = (\<lparr>status = 404, body = error_body ''Event not found.''\<rparr>, f)"
    by (simp add: delete_event_def findIndex_absent)
next
  assume a: "\<forall>e\<in>set es. field e ''id'' \<noteq> Some (JStr i)"
    and v: "\<not> truthy (map_of reqBody ''eventName'') \<and> \<not> truthy (map_of reqBody ''id'')
               \<and> (map_of reqBody ''location'' \<noteq> None \<or> map_of reqBody ''description'' \<noteq> None
                    \<or> map_of reqBody ''tags'' \<noteq> None \<or> map_of reqBody ''date'' \<noteq> None)"
  from assms a have "array_findIndex (has_id i) es = Inr None"
    by (simp add: findIndex_absent)
  with assms v show "put_event i reqBody f =
                (\<lparr>status = 404, body = error_body ''Event not found.''\<rparr>, f)"
    by (auto simp add: put_event_def Let_def)
next
  assume p: "\<exists>e\<in>set es. field e ''id'' = Some (JStr i)"
  with assms obtain index where "array_findIndex (has_id i) es = Inr (Some index)"
    using findIndex_present by blast
  with assms show "delete_event i f =
              (\<lparr>status = 200, body = JObj [(''message'', JStr ''Event deleted successfully.'')]\<rparr>,
               Json (JArr (filter (\<lambda>e. field e ''id'' \<noteq> Some (JStr i)) es)))"
    by (simp add: delete_event_def array_filter_no_null writeEvents_def)
next
  assume p: "\<exists>e\<in>set es. field e ''id'' = Some (JStr i)"
  let ?es' = "filter (\<lambda>e. field e ''id'' \<noteq> Some (JStr i)) es"
  from assms have "JNull \<notin> set ?es'" by simp
  moreover have "\<forall>e\<in>set ?es'. field e ''id'' \<noteq> Some (JStr i)" by simp
  ultimately have "array_findIndex (has_id i) ?es' = Inr None"
    by (rule findIndex_absent)
  then show "delete_event i (Json (JArr ?es')) =
              (\<lparr>status = 404, body = error_body ''Event not found.''\<rparr>, Json (JArr ?es'))"
    by (simp add: delete_event_def readEvents_def)
next
  assume p: "\<exists>e\<in>set es. field e ''id'' = Some (JStr i)"
    and d: "distinct (map (\<lambda>e. field e ''id'') es)"
  from p assms obtain index where "array_findIndex (has_id i) es = Inr (Some index)"
    using findIndex_present by blast
  then have "index < length es" and "field (es ! index) ''id'' = Some (JStr i)"
    using findIndex_has_id by blast+
  with d filter_removes_one [of "\<lambda>e. field e ''id''" es index "Some (JStr i)"]
  show "\<exists>index<length es. field (es ! index) ''id'' = Some (JStr i)
                  \<and> filter (\<lambda>e. field e ''id'' \<noteq> Some (JStr i)) es =
                      take index es @ drop (Suc index) es"
    by blast
qed

theorem not_found_and_delete_witness:
  "delete_event ''9-9''
     (Json (JArr [JObj [(''id'', JStr ''1-1''), (''eventName'', JStr ''A'')],
                  JObj [(''id'', JStr ''2-2''), (''eventName'', JStr ''B'')]])) =
     (\<lparr>status = 404, body = error_body ''Event not found.''\<rparr>,
      Json (JArr [JObj [(''id'', JStr ''1-1''), (''eventName'', JStr ''A'')],
                  JObj [(''id'', JStr ''2-2''), (''eventName'', JStr ''B'')]]))
   \<and> put_event ''9-9'' [(''location'', JStr ''Hall'')]
     (Json (JArr [JObj [(''id'', JStr ''1-1''), (''eventName'', JStr ''A'')],
                  JObj [(''id'', JStr ''2-2''), (''eventName'', JStr ''B'')]])) =
     (\<lparr>status = 404, body = error_body ''Event not found.''\<rparr>,
      Json (JArr [JObj [(''id'', JStr ''1-1''), (''eventName'', JStr ''A'')],
                  JObj [(''id'', JStr ''2-2''), (''eventName'', JStr ''B'')]]))
   \<and> delete_event ''2-2''
     (Json (JArr [JObj [(''id'', JStr ''1-1''), (''eventName'', JStr ''A'')],
                  JObj [(''id'', JStr ''2-2''), (''eventName'', JStr ''B'')]])) =
     (\<lparr>status = 200, body = JObj [(''message'', JStr ''Event deleted successfully.'')]\<rparr>,
      Json (JArr [JObj [(''id'', JStr ''1-1''), (''eventName'', JStr ''A'')]]))
   \<and> delete_event ''2-2''
     (Json (JArr [JObj [(''id'', JStr ''1-1''), (''eventName'', JStr ''A'')]])) =
     (\<lparr>status = 404, body = error_body ''Event not found.''\<rparr>,
      Json (JArr [JObj [(''id'', JStr ''1-1''), (''eventName'', JStr ''A'')]]))"
  using not_found_and_delete [of
          "Json (JArr [JObj [(''id'', JStr ''1-1''), (''eventName'', JStr ''A'')],
                       JObj [(''id'', JStr ''2-2''), (''eventName'', JStr ''B'')]])"
          "[JObj [(''id'', JStr ''1-1''), (''eventName'', JStr ''A'')],
            JObj [(''id'', JStr ''2-2''), (''eventName'', JStr ''B'')]]"
          "''9-9''" "[(''location'', JStr ''Hall'')]"]
        not_found_and_delete [of
          "Json (JArr [JObj [(''id'', JStr ''1-1''), (''eventName'', JStr ''A'')],
                       JObj [(''id'', JStr ''2-2''), (''eventName'', JStr ''B'')]])"
          "[JObj [(''id'', JStr ''1-1''), (''eventName'', JStr ''A'')],
            JObj [(''id'', JStr ''2-2''), (''eventName'', JStr ''B'')]]"
          "''2-2''" "[]"]
  by (simp add: readEvents_def)

section \<open>Creating events\<close>

text \<open>
  C3: a create request with truthy (non-empty) \<^verbatim>\<open>eventName\<close>, \<^verbatim>\<open>date\<close> and \<^verbatim>\<open>location\<close>,
  on a stored collection of records in which no record has the same \<^verbatim>\<open>eventName\<close> and
  \<^verbatim>\<open>date\<close>, is answered 201 with the new record: the generated id, the three supplied
  values, the description (the empty string when none is supplied) and the tags (the
  empty array when none are supplied). The id is generated afresh from the clock and the
  draw of this request: it is the non-empty text of the decimal clock value, a dash and
  the decimal draw, no other pair of clock value and draw generates it, and so it differs
  from the id of every stored record that was generated at another clock value or from
  another draw. The record is appended at the end of the collection, which is written to
  the file and read back as such.
\<close>

theorem create_success:
  assumes "map_of reqBody ''eventName'' = Some n" and "truthy (Some n)"
      and "map_of reqBody ''date'' = Some d" and "truthy (Some d)"
      and "map_of reqBody ''location'' = Some l" and "truthy (Some l)"
      and "readEvents f = Inr (JArr es)" and "JNull \<notin> set es"
      and "\<not> (\<exists>e\<in>set es. field e ''eventName'' = Some n \<and> field e ''date'' = Some d)"
  shows "\<exists>dv tv.
           post_events now r reqBody f =
             (\<lparr>status = 201,
               body = JObj [(''id'', JStr (generateId now r)), (''eventName'', n), (''date'', d),
                            (''location'', l), (''description'', dv), (''tags'', tv)]\<rparr>,
              Json (JArr (es @
                [JObj [(''id'', JStr (generateId now r)), (''eventName'', n), (''date'', d),
                       (''location'', l), (''description'', dv), (''tags'', tv)]])))
         \<and> readEvents (Json (JArr (es @
                [JObj [(''id'', JStr (generateId now r)), (''eventName'', n), (''date'', d),
                       (''location'', l), (''description'', dv), (''tags'', tv)]]))) =
             Inr (JArr (es @
                [JObj [(''id'', JStr (generateId now r)), (''eventName'', n), (''date'', d),
                       (''location'', l), (''description'', dv), (''tags'', tv)]]))
         \<and> generateId now r \<noteq> []
         \<and> generateId now r = dec now @ ''-'' @ dec r
         \<and> (\<forall>t s. generateId t s = generateId now r \<longrightarrow> t = now \<and> s = r)
         \<and> (\<forall>e\<in>set es. \<forall>t s. field e ''id'' = Some (JStr (generateId t s)) \<longrightarrow>
               (t, s) \<noteq> (now, r) \<longrightarrow> field e ''id'' \<noteq> Some (JStr (generateId now r)))
         \<and> (map_of reqBody ''description'' = None \<longrightarrow> dv = JStr [])
         \<and> (\<forall>v. map_of reqBody ''description'' = Some v \<longrightarrow> truthy (Some v) \<longrightarrow> dv = v)
         \<and> (map_of reqBody ''tags'' = None \<longrightarrow> tv = JArr [])
         \<and> (\<forall>xs. map_of reqBody ''tags'' = Some (JArr xs) \<longrightarrow> tv = JArr xs)"
proof -
  let ?dv = "case map_of reqBody ''description'' of None \<Rightarrow> JStr []
             | Some v \<Rightarrow> if truthy (Some v) then v else JStr []"
  let ?tv = "create_tags (map_of reqBody ''tags'')"
  let ?ev = "JObj [(''id'', JStr (generateId now r)), (''eventName'', n), (''date'', d),
                   (''location'', l), (''description'', ?dv), (''tags'', ?tv)]"
  from assms(9) have nodup:
    "\<not> (\<exists>e\<in>set es. strict_eq (field e ''eventName'') (Some n) \<and> strict_eq (field e ''date'') (Some d))"
    by (auto dest: strict_eq_imp_eq)
  have post: "post_events now r reqBody f =
                (\<lparr>status = 201, body = ?ev\<rparr>, Json (JArr (es @ [?ev])))"
    using assms(1-8) nodup
    by (simp add: post_events_store newEvent_fields)
  have reread: "readEvents (Json (JArr (es @ [?ev]))) = Inr (JArr (es @ [?ev]))"
    by (simp add: readEvents_def)
  have nonempty: "generateId now r \<noteq> []"
    by (rule generateId_not_Nil)
  have format: "generateId now r = dec now @ ''-'' @ dec r"
    by (simp add: generateId_def)
  have inj: "\<forall>t s. generateId t s = generateId now r \<longrightarrow> t = now \<and> s = r"
    by (simp add: generateId_inj)
  have fresh: "\<forall>e\<in>set es. \<forall>t s. field e ''id'' = Some (JStr (generateId t s)) \<longrightarrow>
               (t, s) \<noteq> (now, r) \<longrightarrow> field e ''id'' \<noteq> Some (JStr (generateId now r))"
    by (auto simp: generateId_inj)
  have d1: "map_of reqBody ''description'' = None \<longrightarrow> ?dv = JStr []"
    by simp
  have d2: "\<forall>v. map_of reqBody ''description'' = Some v \<longrightarrow> truthy (Some v) \<longrightarrow> ?dv = v"
    by simp
  have t1: "map_of reqBody ''tags'' = None \<longrightarrow> ?tv = JArr []"
    by simp
  have t2: "\<forall>xs. map_of reqBody ''tags'' = Some (JArr xs) \<longrightarrow> ?tv = JArr xs"
    by simp
  show ?thesis
    by (intro exI [of _ ?dv] exI [of _ ?tv] conjI)
       (rule post reread nonempty format inj fresh d1 d2 t1 t2)+
qed

theorem create_success_witness:
  "post_events 1700000000000 42
     [(''eventName'', JStr ''Launch''), (''date'', JStr ''2025-06-01''), (''location'', JStr ''Hall'')]
     (Json (JArr [JObj [(''id'', JStr ''1690000000000-7''), (''eventName'', JStr ''Launch''),
                        (''date'', JStr ''2025-05-01''), (''location'', JStr ''Room''),
                        (''description'', JStr []), (''tags'', JArr [])]])) =
     (\<lparr>status = 201,
       body = JObj [(''id'', JStr ''1700000000000-42''), (''eventName'', JStr ''Launch''),
                    (''date'', JStr ''2025-06-01''), (''location'', JStr ''Hall''),
                    (''description'', JStr []), (''tags'', JArr [])]\<rparr>,
      Json (JArr [JObj [(''id'', JStr ''1690000000000-7''), (''eventName'', JStr ''Launch''),
                        (''date'', JStr ''2025-05-01''), (''location'', JStr ''Room''),
                        (''description'', JStr []), (''tags'', JArr [])],
                  JObj [(''id'', JStr ''1700000000000-42''), (''eventName'', JStr ''Launch''),
                        (''date'', JStr ''2025-06-01''), (''location'', JStr ''Hall''),
                        (''description'', JStr []), (''tags'', JArr [])]]))
   \<and> post_events 1700000000001 7
     [(''eventName'', JStr ''Launch''), (''date'', JStr ''2025-06-01''), (''location'', JStr ''Hall'')]
     (Json (JArr [JObj [(''id'', JStr ''1690000000000-7''), (''eventName'', JStr ''Launch''),
                        (''date'', JStr ''2025-05-01''), (''location'', JStr ''Room''),
                        (''description'', JStr []), (''tags'', JArr [])]])) =
     (\<lparr>status = 201,
       body = JObj [(''id'', JStr ''1700000000001-7''), (''eventName'', JStr ''Launch''),
                    (''date'', JStr ''2025-06-01''), (''location'', JStr ''Hall''),
                    (''description'', JStr []), (''tags'', JArr [])]\<rparr>,
      Json (JArr [JObj [(''id'', JStr ''1690000000000-7''), (''eventName'', JStr ''Launch''),
                        (''date'', JStr ''2025-05-01''), (''location'', JStr ''Room''),
                        (''description'', JStr []), (''tags'', JArr [])],
                  JObj [(''id'', JStr ''1700000000001-7''), (''eventName'', JStr ''Launch''),
                        (''date'', JStr ''2025-06-01''), (''location'', JStr ''Hall''),
                        (''description'', JStr []), (''tags'', JArr [])]]))
   \<and> generateId 1700000000000 42 = ''1700000000000-42''
   \<and> generateId 1700000000001 7 = ''1700000000001-7''
   \<and> generateId 1700000000001 7 \<noteq> generateId 1700000000000 42"
proof -
  let ?body = "[(''eventName'', JStr ''Launch''), (''date'', JStr ''2025-06-01''),
                (''location'', JStr ''Hall'')]"
  let ?es = "[JObj [(''id'', JStr ''1690000000000-7''), (''eventName'', JStr ''Launch''),
                    (''date'', JStr ''2025-05-01''), (''location'', JStr ''Room''),
                    (''description'', JStr []), (''tags'', JArr [])]]"
  have r: "readEvents (Json (JArr ?es)) = Inr (JArr ?es)"
    by (simp add: readEvents_def)
  have g1: "generateId 1700000000000 42 = ''1700000000000-42''"
    by (simp add: generateId_def dec.simps digit_def)
  have g2: "generateId 1700000000001 7 = ''1700000000001-7''"
    by (simp add: generateId_def dec.simps digit_def)
  from create_success [of ?body "JStr ''Launch''" "JStr ''2025-06-01''" "JStr ''Hall''"
         "Json (JArr ?es)" ?es 1700000000000 42] r
  obtain dv tv where
    a: "post_events 1700000000000 42 ?body (Json (JArr ?es)) =
          (\<lparr>status = 201,
            body = JObj [(''id'', JStr (generateId 1700000000000 42)),
                         (''eventName'', JStr ''Launch''), (''date'', JStr ''2025-06-01''),
                         (''location'', JStr ''Hall''), (''description'', dv), (''tags'', tv)]\<rparr>,
           Json (JArr (?es @
             [JObj [(''id'', JStr (generateId 1700000000000 42)),
                    (''eventName'', JStr ''Launch''), (''date'', JStr ''2025-06-01''),
                    (''location'', JStr ''Hall''), (''description'', dv), (''tags'', tv)]])))"
    and a1: "map_of ?body ''description'' = None \<longrightarrow> dv = JStr []"
    and a2: "map_of ?body ''tags'' = None \<longrightarrow> tv = JArr []"
    and inj: "\<forall>t s. generateId t s = generateId 1700000000000 42 \<longrightarrow>
                t = 1700000000000 \<and> s = 42"
    by (auto simp del: append.simps)
  from create_success [of ?body "JStr ''Launch''" "JStr ''2025-06-01''" "JStr ''Hall''"
         "Json (JArr ?es)" ?es 1700000000001 7] r
  obtain dv' tv' where
    b: "post_events 1700000000001 7 ?body (Json (JArr ?es)) =
          (\<lparr>status = 201,
            body = JObj [(''id'', JStr (generateId 1700000000001 7)),
                         (''eventName'', JStr ''Launch''), (''date'', JStr ''2025-06-01''),
                         (''location'', JStr ''Hall''), (''description'', dv'), (''tags'', tv')]\<rparr>,
           Json (JArr (?es @
             [JObj [(''id'', JStr (generateId 1700000000001 7)),
                    (''eventName'', JStr ''Launch''), (''date'', JStr ''2025-06-01''),
                    (''location'', JStr ''Hall''), (''description'', dv'), (''tags'', tv')]])))"
    and b1: "map_of ?body ''description'' = None \<longrightarrow> dv' = JStr []"
    and b2: "map_of ?body ''tags'' = None \<longrightarrow> tv' = JArr []"
    by (auto simp del: append.simps)
  from a1 a2 b1 b2 have "dv = JStr []" "tv = JArr []" "dv' = JStr []" "tv' = JArr []"
    by simp_all
  moreover from inj
  have "generateId 1700000000001 7 = generateId 1700000000000 42 \<longrightarrow>
          (1700000000001 :: nat) = 1700000000000 \<and> (7 :: nat) = 42"
    by blast
  then have "generateId 1700000000001 7 \<noteq> generateId 1700000000000 42"
    by simp
  ultimately show ?thesis
    using a b g1 g2 by simp
qed

text \<open>
  C2: for a create request whose required fields are present, with \<^verbatim>\<open>eventName\<close> and
  \<^verbatim>\<open>date\<close> primitive values (strings in the data model; \<^verbatim>\<open>===\<close> compares these by value),
  on a stored collection of records: if a stored record has the same \<^verbatim>\<open>eventName\<close> and
  \<^verbatim>\<open>date\<close>, the response is 409 and the file is left as it was; and whenever the response
  is 201, a collection in which no two records share the pair \<^verbatim>\<open>(eventName, date)\<close> is
  written back with the new record appended and still has that property.
\<close>

theorem create_duplicate:
  assumes "map_of reqBody ''eventName'' = Some n" and "truthy (Some n)" and "primitive n"
      and "map_of reqBody ''date'' = Some d" and "truthy (Some d)" and "primitive d"
      and "truthy (map_of reqBody ''location'')"
      and "readEvents f = Inr (JArr es)" and "JNull \<notin> set es"
  shows "((\<exists>e\<in>set es. field e ''eventName'' = Some n \<and> field e ''date'' = Some d) \<longrightarrow>
            post_events now r reqBody f =
              (\<lparr>status = 409,
                body = error_body
                  ''An event with the same eventName and date already exists.''\<rparr>, f))
       \<and> (status (fst (post_events now r reqBody f)) = 201 \<longrightarrow>
            distinct (map (\<lambda>e. (field e ''eventName'', field e ''date'')) es) \<longrightarrow>
            (\<exists>ev. snd (post_events now r reqBody f) = Json (JArr (es @ [ev]))
                 \<and> field ev ''eventName'' = Some n \<and> field ev ''date'' = Some d
                 \<and> distinct (map (\<lambda>e. (field e ''eventName'', field e ''date'')) (es @ [ev]))))"
proof -
  let ?dup = "\<exists>e\<in>set es. field e ''eventName'' = Some n \<and> field e ''date'' = Some d"
  obtain l where l: "map_of reqBody ''location'' = Some l"
    using assms(7) by (cases "map_of reqBody ''location''") auto
  let ?ev = "newEvent (generateId now r) (Some n) (Some d) (Some l)
               (map_of reqBody ''description'') (map_of reqBody ''tags'')"
  have p: "post_events now r reqBody f =
     (if ?dup
      then (\<lparr>status = 409,
              body = error_body ''An event with the same eventName and date already exists.''\<rparr>, f)
      else (\<lparr>status = 201, body = ?ev\<rparr>, Json (JArr (es @ [?ev]))))"
    using assms l post_events_store [of f es reqBody now r]
    by (simp add: strict_eq_primitive)
  have "field ?ev ''eventName'' = Some n" and "field ?ev ''date'' = Some d"
    by (simp_all add: newEvent_fields)
  then have "\<not> ?dup \<Longrightarrow> distinct (map (\<lambda>e. (field e ''eventName'', field e ''date'')) es) \<Longrightarrow>
          distinct (map (\<lambda>e. (field e ''eventName'', field e ''date'')) (es @ [?ev]))"
    by auto
  with p \<open>field ?ev ''eventName'' = Some n\<close> \<open>field ?ev ''date'' = Some d\<close>
  show ?thesis
    by (cases ?dup) auto
qed

theorem create_duplicate_witness:
  "post_events 1700000000000 42
     [(''eventName'', JStr ''Launch''), (''date'', JStr ''2025-06-01''), (''location'', JStr ''Hall'')]
     (Json (JArr [JObj [(''id'', JStr ''1690000000000-7''), (''eventName'', JStr ''Launch''),
                        (''date'', JStr ''2025-06-01''), (''location'', JStr ''Room''),
                        (''description'', JStr []), (''tags'', JArr [])]])) =
     (\<lparr>status = 409,
       body = error_body ''An event with the same eventName and date already exists.''\<rparr>,
      Json (JArr [JObj [(''id'', JStr ''1690000000000-7''), (''eventName'', JStr ''Launch''),
                        (''date'', JStr ''2025-06-01''), (''location'', JStr ''Room''),
                        (''description'', JStr []), (''tags'', JArr [])]]))
   \<and> (\<exists>ev. snd (post_events 1700000000000 42
            [(''eventName'', JStr ''Launch''), (''date'', JStr ''2025-07-01''),
             (''location'', JStr ''Hall'')]
            (Json (JArr [JObj [(''id'', JStr ''1690000000000-7''), (''eventName'', JStr ''Launch''),
                        (''date'', JStr ''2025-06-01''), (''location'', JStr ''Room''),
                        (''description'', JStr []), (''tags'', JArr [])]]))) =
          Json (JArr ([JObj [(''id'', JStr ''1690000000000-7''), (''eventName'', JStr ''Launch''),
                        (''date'', JStr ''2025-06-01''), (''location'', JStr ''Room''),
                        (''description'', JStr []), (''tags'', JArr [])]] @ [ev]))
        \<and> field ev ''eventName'' = Some (JStr ''Launch'')
        \<and> field ev ''date'' = Some (JStr ''2025-07-01'')
        \<and> distinct (map (\<lambda>e. (field e ''eventName'', field e ''date''))
              ([JObj [(''id'', JStr ''1690000000000-7''), (''eventName'', JStr ''Launch''),
                        (''date'', JStr ''2025-06-01''), (''location'', JStr ''Room''),
                        (''description'', JStr []), (''tags'', JArr [])]] @ [ev])))"
proof -
  let ?es = "[JObj [(''id'', JStr ''1690000000000-7''), (''eventName'', JStr ''Launch''),
                        (''date'', JStr ''2025-06-01''), (''location'', JStr ''Room''),
                        (''description'', JStr []), (''tags'', JArr [])]]"
  let ?dup = "[(''eventName'', JStr ''Launch''), (''date'', JStr ''2025-06-01''),
               (''location'', JStr ''Hall'')]"
  let ?new = "[(''eventName'', JStr ''Launch''), (''date'', JStr ''2025-07-01''),
               (''location'', JStr ''Hall'')]"
  have r: "readEvents (Json (JArr ?es)) = Inr (JArr ?es)"
    by (simp add: readEvents_def)
  have "post_events 1700000000000 42 ?dup (Json (JArr ?es)) =
     (\<lparr>status = 409,
       body = error_body ''An event with the same eventName and date already exists.''\<rparr>,
      Json (JArr ?es))"
    using create_duplicate [of ?dup "JStr ''Launch''" "JStr ''2025-06-01''" "Json (JArr ?es)" ?es
            1700000000000 42] r
    by simp
  moreover have s: "status (fst (post_events 1700000000000 42 ?new (Json (JArr ?es)))) = 201"
    by (simp add: post_events_def readEvents_def writeEvents_def same_name_date_def Let_def)
  have d: "distinct (map (\<lambda>e. (field e ''eventName'', field e ''date'')) ?es)"
    by simp
  have "\<exists>ev. snd (post_events 1700000000000 42 ?new (Json (JArr ?es))) = Json (JArr (?es @ [ev]))
        \<and> field ev ''eventName'' = Some (JStr ''Launch'')
        \<and> field ev ''date'' = Some (JStr ''2025-07-01'')
        \<and> distinct (map (\<lambda>e. (field e ''eventName'', field e ''date'')) (?es @ [ev]))"
    by (rule create_duplicate [of ?new "JStr ''Launch''" "JStr ''2025-07-01''" "Json (JArr ?es)" ?es
            1700000000000 42, THEN conjunct2, rule_format, OF _ _ _ _ _ _ _ r _ s d]) simp_all
  ultimately show ?thesis
    by (intro conjI)
qed

text \<open>
  C4, as stated, fails: \<^verbatim>\<open>generateId\<close> depends only on the clock and the random draw and
  the handler never compares the new id with the stored ones. Two creates in the same
  millisecond with the same draw (one chance in 100000) both succeed and store two
  records with the same id.
\<close>

theorem create_id_collision_counterexample:
  "post_events 1700000000000 42
     [(''eventName'', JStr ''A''), (''date'', JStr ''2025-06-01''), (''location'', JStr ''Hall'')]
     Missing =
     (\<lparr>status = 201,
       body = JObj [(''id'', JStr ''1700000000000-42''), (''eventName'', JStr ''A''),
                    (''date'', JStr ''2025-06-01''), (''location'', JStr ''Hall''),
                    (''description'', JStr []), (''tags'', JArr [])]\<rparr>,
      Json (JArr [JObj [(''id'', JStr ''1700000000000-42''), (''eventName'', JStr ''A''),
                        (''date'', JStr ''2025-06-01''), (''location'', JStr ''Hall''),
                        (''description'', JStr []), (''tags'', JArr [])]]))
   \<and> post_events 1700000000000 42
     [(''eventName'', JStr ''B''), (''date'', JStr ''2025-06-01''), (''location'', JStr ''Hall'')]
     (Json (JArr [JObj [(''id'', JStr ''1700000000000-42''), (''eventName'', JStr ''A''),
                        (''date'', JStr ''2025-06-01''), (''location'', JStr ''Hall''),
                        (''description'', JStr []), (''tags'', JArr [])]])) =
     (\<lparr>status = 201,
       body = JObj [(''id'', JStr ''1700000000000-42''), (''eventName'', JStr ''B''),
                    (''date'', JStr ''2025-06-01''), (''location'', JStr ''Hall''),
                    (''description'', JStr []), (''tags'', JArr [])]\<rparr>,
      Json (JArr [JObj [(''id'', JStr ''1700000000000-42''), (''eventName'', JStr ''A''),
                        (''date'', JStr ''2025-06-01''), (''location'', JStr ''Hall''),
                        (''description'', JStr []), (''tags'', JArr [])],
                  JObj [(''id'', JStr ''1700000000000-42''), (''eventName'', JStr ''B''),
                        (''date'', JStr ''2025-06-01''), (''location'', JStr ''Hall''),
                        (''description'', JStr []), (''tags'', JArr [])]]))"
  by (simp add: post_events_def readEvents_def writeEvents_def same_name_date_def newEvent_def
        generateId_def dec.simps digit_def Let_def)

text \<open>
  C4, amended: a successful create appends a record whose id is the text
  \<^verbatim>\<open>generateId\<close> builds from the clock and the draw. That text differs from the id
  generated at any other pair of clock value and draw, and if no stored record has it as
  its id, stored ids that were pairwise distinct remain so. (No comparison with the
  stored ids is made.)
\<close>

theorem create_id_distinct:
  assumes "readEvents f = Inr (JArr es)"
      and "status (fst (post_events now r reqBody f)) = 201"
  shows "\<exists>ev. post_events now r reqBody f = (\<lparr>status = 201, body = ev\<rparr>, Json (JArr (es @ [ev])))
           \<and> field ev ''id'' = Some (JStr (generateId now r))
           \<and> (\<forall>t s. (t, s) \<noteq> (now, r) \<longrightarrow> generateId t s \<noteq> generateId now r)
           \<and> ((\<forall>e\<in>set es. field e ''id'' \<noteq> Some (JStr (generateId now r))) \<longrightarrow>
                distinct (map (\<lambda>e. field e ''id'') es) \<longrightarrow>
                distinct (map (\<lambda>e. field e ''id'') (es @ [ev])))"
proof -
  let ?ev = "newEvent (generateId now r) (map_of reqBody ''eventName'')
               (map_of reqBody ''date'') (map_of reqBody ''location'')
               (map_of reqBody ''description'') (map_of reqBody ''tags'')"
  from post_events_201 [OF assms(2) assms(1)]
  have "post_events now r reqBody f = (\<lparr>status = 201, body = ?ev\<rparr>, Json (JArr (es @ [?ev])))"
    by simp
  moreover have "field ?ev ''id'' = Some (JStr (generateId now r))"
    by (rule field_newEvent_id)
  moreover have "\<forall>t s. (t, s) \<noteq> (now, r) \<longrightarrow> generateId t s \<noteq> generateId now r"
    by (simp add: generateId_inj)
  ultimately show ?thesis
    by (intro exI [of _ ?ev]) auto
qed

theorem create_id_distinct_witness:
  "post_events 1700000000000 43
     [(''eventName'', JStr ''B''), (''date'', JStr ''2025-06-01''), (''location'', JStr ''Hall'')]
     (Json (JArr [JObj [(''id'', JStr ''1700000000000-42''), (''eventName'', JStr ''A''),
                        (''date'', JStr ''2025-06-01''), (''location'', JStr ''Hall''),
                        (''description'', JStr []), (''tags'', JArr [])]])) =
     (\<lparr>status = 201,
       body = JObj [(''id'', JStr ''1700000000000-43''), (''eventName'', JStr ''B''),
                    (''date'', JStr ''2025-06-01''), (''location'', JStr ''Hall''),
                    (''description'', JStr []), (''tags'', JArr [])]\<rparr>,
      Json (JArr [JObj [(''id'', JStr ''1700000000000-42''), (''eventName'', JStr ''A''),
                        (''date'', JStr ''2025-06-01''), (''location'', JStr ''Hall''),
                        (''description'', JStr []), (''tags'', JArr [])],
                  JObj [(''id'', JStr ''1700000000000-43''), (''eventName'', JStr ''B''),
                        (''date'', JStr ''2025-06-01''), (''location'', JStr ''Hall''),
                        (''description'', JStr []), (''tags'', JArr [])]]))
   \<and> generateId 1700000000000 42 \<noteq> generateId 1700000000000 43"
proof -
  let ?body = "[(''eventName'', JStr ''B''), (''date'', JStr ''2025-06-01''),
                (''location'', JStr ''Hall'')]"
  let ?es = "[JObj [(''id'', JStr ''1700000000000-42''), (''eventName'', JStr ''A''),
                        (''date'', JStr ''2025-06-01''), (''location'', JStr ''Hall''),
                        (''description'', JStr []), (''tags'', JArr [])]]"
  have r: "readEvents (Json (JArr ?es)) = Inr (JArr ?es)"
    by (simp add: readEvents_def)
  have p: "post_events 1700000000000 43 ?body (Json (JArr ?es)) =
     (\<lparr>status = 201,
       body = JObj [(''id'', JStr ''1700000000000-43''), (''eventName'', JStr ''B''),
                    (''date'', JStr ''2025-06-01''), (''location'', JStr ''Hall''),
                    (''description'', JStr []), (''tags'', JArr [])]\<rparr>,
      Json (JArr (?es @ [JObj [(''id'', JStr ''1700000000000-43''), (''eventName'', JStr ''B''),
                        (''date'', JStr ''2025-06-01''), (''location'', JStr ''Hall''),
                        (''description'', JStr []), (''tags'', JArr [])]])))"
    by (simp add: post_events_def readEvents_def writeEvents_def same_name_date_def newEvent_def
        generateId_def dec.simps digit_def Let_def)
  then have s: "status (fst (post_events 1700000000000 43 ?body (Json (JArr ?es)))) = 201"
    by simp
  from create_id_distinct [OF r s]
  have "\<forall>t s. (t, s) \<noteq> (1700000000000 :: nat, 43 :: nat) \<longrightarrow>
          generateId t s \<noteq> generateId 1700000000000 43"
    by blast
  then have "(1700000000000 :: nat, 42 :: nat) \<noteq> (1700000000000, 43) \<longrightarrow>
          generateId 1700000000000 42 \<noteq> generateId 1700000000000 43"
    by blast
  then have "generateId 1700000000000 42 \<noteq> generateId 1700000000000 43"
    by simp
  with p show ?thesis by simp
qed

section \<open>Updating events\<close>

text \<open>
  C1: an update request on a stored id (the record \<^verbatim>\<open>findIndex\<close> locates, the first with
  that id) leaves the collection with the same number of records, every other record as
  it was, and in the located record the \<^verbatim>\<open>id\<close>, the \<^verbatim>\<open>eventName\<close> and every property that
  is not one of \<^verbatim>\<open>location\<close>, \<^verbatim>\<open>description\<close>, \<^verbatim>\<open>date\<close>, \<^verbatim>\<open>tags\<close> present in the body as they
  were. When the body passes the validation, the response is 200 with the updated record,
  the collection is written back, each of \<^verbatim>\<open>location\<close>, \<^verbatim>\<open>description\<close>, \<^verbatim>\<open>date\<close> present
  in the body holds the value sent, and \<^verbatim>\<open>tags\<close>, when present, holds the array sent
  (whatever the stored tags were), or the one-element array of a value that is no array.
\<close>

theorem update_changes_only_given_fields:
  assumes "readEvents f = Inr (JArr es)"
      and "array_findIndex (has_id i) es = Inr (Some index)"
  shows "\<exists>es'. readEvents (snd (put_event i reqBody f)) = Inr (JArr es')
           \<and> length es' = length es
           \<and> (\<forall>j<length es. j \<noteq> index \<longrightarrow> es' ! j = es ! j)
           \<and> field (es' ! index) ''id'' = field (es ! index) ''id''
           \<and> field (es' ! index) ''eventName'' = field (es ! index) ''eventName''
           \<and> (\<forall>k. k \<notin> {''location'', ''description'', ''date'', ''tags''} \<or> map_of reqBody k = None
                 \<longrightarrow> field (es' ! index) k = field (es ! index) k)
           \<and> (\<not> truthy (map_of reqBody ''eventName'') \<and> \<not> truthy (map_of reqBody ''id'')
               \<and> (map_of reqBody ''location'' \<noteq> None \<or> map_of reqBody ''description'' \<noteq> None
                    \<or> map_of reqBody ''tags'' \<noteq> None \<or> map_of reqBody ''date'' \<noteq> None) \<longrightarrow>
                put_event i reqBody f = (\<lparr>status = 200, body = es' ! index\<rparr>, Json (JArr es'))
              \<and> (\<forall>k\<in>{''location'', ''description'', ''date''}. \<forall>v.
                    map_of reqBody k = Some v \<longrightarrow> field (es' ! index) k = Some v)
              \<and> (\<forall>xs. map_of reqBody ''tags'' = Some (JArr xs) \<longrightarrow>
                    field (es' ! index) ''tags'' = Some (JArr xs))
              \<and> (\<forall>v. map_of reqBody ''tags'' = Some v \<longrightarrow> \<not> isArray (Some v) \<longrightarrow>
                    field (es' ! index) ''tags'' = Some (JArr [v])))"
proof -
  from findIndex_has_id [OF assms(2)] obtain ps where
    len: "index < length es" and ps: "es ! index = JObj ps"
    by blast
  let ?valid = "\<not> truthy (map_of reqBody ''eventName'') \<and> \<not> truthy (map_of reqBody ''id'')
               \<and> (map_of reqBody ''location'' \<noteq> None \<or> map_of reqBody ''description'' \<noteq> None
                    \<or> map_of reqBody ''tags'' \<noteq> None \<or> map_of reqBody ''date'' \<noteq> None)"
  let ?e' = "apply_fields (map_of reqBody ''location'') (map_of reqBody ''description'')
               (map_of reqBody ''date'') (map_of reqBody ''tags'') (JObj ps)"
  show ?thesis
  proof (cases ?valid)
    case True
    let ?es' = "es[index := ?e']"
    have put: "put_event i reqBody f = (\<lparr>status = 200, body = ?es' ! index\<rparr>, Json (JArr ?es'))"
      using put_event_store [OF assms] True ps by simp
    have nth: "?es' ! index = ?e'"
      using len by simp
    have "readEvents (snd (put_event i reqBody f)) = Inr (JArr ?es')"
      by (simp add: put readEvents_def)
    moreover have "length ?es' = length es"
      by simp
    moreover have "\<forall>j<length es. j \<noteq> index \<longrightarrow> ?es' ! j = es ! j"
      by simp
    moreover have "field (?es' ! index) ''id'' = field (es ! index) ''id''"
      by (simp add: nth ps field_apply_fields_frame)
    moreover have "field (?es' ! index) ''eventName'' = field (es ! index) ''eventName''"
      by (simp add: nth ps field_apply_fields_frame)
    moreover have "\<forall>k. k \<notin> {''location'', ''description'', ''date'', ''tags''}
                          \<or> map_of reqBody k = None
                 \<longrightarrow> field (?es' ! index) k = field (es ! index) k"
      by (simp only: nth ps field.simps) (blast intro: field_apply_fields_frame)
    moreover have "\<forall>k\<in>{''location'', ''description'', ''date''}. \<forall>v.
                    map_of reqBody k = Some v \<longrightarrow> field (?es' ! index) k = Some v"
      by (simp only: nth) (blast intro: field_apply_fields_given)
    moreover have "\<forall>xs. map_of reqBody ''tags'' = Some (JArr xs) \<longrightarrow>
                    field (?es' ! index) ''tags'' = Some (JArr xs)"
      using len by (simp add: field_apply_fields_tags)
    moreover have "\<forall>v. map_of reqBody ''tags'' = Some v \<longrightarrow> \<not> isArray (Some v) \<longrightarrow>
                    field (?es' ! index) ''tags'' = Some (JArr [v])"
      using len by (simp add: field_apply_fields_tags)
    ultimately show ?thesis
      using put by (intro exI [of _ ?es']) blast
  next
    case False
    then have "snd (put_event i reqBody f) = f"
      using put_event_invalid [of reqBody i f] by auto
    with assms(1) have "readEvents (snd (put_event i reqBody f)) = Inr (JArr es)"
      by simp
    moreover have "?valid \<longrightarrow> R" for R
      using False by blast
    ultimately show ?thesis
      by (intro exI [of _ es]) simp
  qed
qed

theorem update_changes_only_given_fields_witness:
  "put_event ''1700000000000-42'' [(''location'', JStr ''New Place'')]
     (Json (JArr [JObj [(''id'', JStr ''1700000000000-42''), (''eventName'', JStr ''Launch''),
                        (''date'', JStr ''2025-06-01''), (''location'', JStr ''Hall''),
                        (''description'', JStr ''Kick-off''), (''tags'', JArr [JStr ''a''])],
                  JObj [(''id'', JStr ''1700000000001-7''), (''eventName'', JStr ''Review''),
                        (''date'', JStr ''2025-07-01''), (''location'', JStr ''Hall''),
                        (''description'', JStr []), (''tags'', JArr [])]])) =
     (\<lparr>status = 200,
       body = JObj [(''id'', JStr ''1700000000000-42''), (''eventName'', JStr ''Launch''),
                    (''date'', JStr ''2025-06-01''), (''location'', JStr ''New Place''),
                    (''description'', JStr ''Kick-off''), (''tags'', JArr [JStr ''a''])]\<rparr>,
      Json (JArr [JObj [(''id'', JStr ''1700000000000-42''), (''eventName'', JStr ''Launch''),
                        (''date'', JStr ''2025-06-01''), (''location'', JStr ''New Place''),
                        (''description'', JStr ''Kick-off''), (''tags'', JArr [JStr ''a''])],
                  JObj [(''id'', JStr ''1700000000001-7''), (''eventName'', JStr ''Review''),
                        (''date'', JStr ''2025-07-01''), (''location'', JStr ''Hall''),
                        (''description'', JStr []), (''tags'', JArr [])]]))
   \<and> (\<exists>es'. readEvents (snd (put_event ''1700000000000-42'' [(''location'', JStr ''New Place'')]
     (Json (JArr [JObj [(''id'', JStr ''1700000000000-42''), (''eventName'', JStr ''Launch''),
                        (''date'', JStr ''2025-06-01''), (''location'', JStr ''Hall''),
                        (''description'', JStr ''Kick-off''), (''tags'', JArr [JStr ''a''])],
                  JObj [(''id'', JStr ''1700000000001-7''), (''eventName'', JStr ''Review''),
                        (''date'', JStr ''2025-07-01''), (''location'', JStr ''Hall''),
                        (''description'', JStr []), (''tags'', JArr [])]])))) = Inr (JArr es')
        \<and> length es' = 2)"
proof -
  let ?es = "[JObj [(''id'', JStr ''1700000000000-42''), (''eventName'', JStr ''Launch''),
                        (''date'', JStr ''2025-06-01''), (''location'', JStr ''Hall''),
                        (''description'', JStr ''Kick-off''), (''tags'', JArr [JStr ''a''])],
                  JObj [(''id'', JStr ''1700000000001-7''), (''eventName'', JStr ''Review''),
                        (''date'', JStr ''2025-07-01''), (''location'', JStr ''Hall''),
                        (''description'', JStr []), (''tags'', JArr [])]]"
  have r: "readEvents (Json (JArr ?es)) = Inr (JArr ?es)"
    by (simp add: readEvents_def)
  have fi: "array_findIndex (has_id ''1700000000000-42'') ?es = Inr (Some 0)"
    by (simp add: has_id_def)
  from update_changes_only_given_fields [OF r fi, of "[(''location'', JStr ''New Place'')]"]
  have "\<exists>es'. readEvents (snd (put_event ''1700000000000-42'' [(''location'', JStr ''New Place'')]
           (Json (JArr ?es)))) = Inr (JArr es') \<and> length es' = length ?es"
    by blast
  then have "\<exists>es'. readEvents (snd (put_event ''1700000000000-42'' [(''location'', JStr ''New Place'')]
           (Json (JArr ?es)))) = Inr (JArr es') \<and> length es' = 2"
    by (simp add: numeral_2_eq_2)
  moreover have "put_event ''1700000000000-42'' [(''location'', JStr ''New Place'')]
     (Json (JArr ?es)) =
     (\<lparr>status = 200,
       body = JObj [(''id'', JStr ''1700000000000-42''), (''eventName'', JStr ''Launch''),
                    (''date'', JStr ''2025-06-01''), (''location'', JStr ''New Place''),
                    (''description'', JStr ''Kick-off''), (''tags'', JArr [JStr ''a''])]\<rparr>,
      Json (JArr [JObj [(''id'', JStr ''1700000000000-42''), (''eventName'', JStr ''Launch''),
                        (''date'', JStr ''2025-06-01''), (''location'', JStr ''New Place''),
                        (''description'', JStr ''Kick-off''), (''tags'', JArr [JStr ''a''])],
                  JObj [(''id'', JStr ''1700000000001-7''), (''eventName'', JStr ''Review''),
                        (''date'', JStr ''2025-07-01''), (''location'', JStr ''Hall''),
                        (''description'', JStr []), (''tags'', JArr [])]]))"
    by (simp add: put_event_def readEvents_def writeEvents_def has_id_def apply_fields_def Let_def)
  ultimately show ?thesis
    by (intro conjI)
qed

text \<open>
  C10: the tags a successful create or update stores are an array. Create stores the
  array sent, the one-element array of a truthy value that is no array, and the empty
  array for a falsy value or none; update stores the array sent, or the one-element
  array of any other value sent (\<^verbatim>\<open>null\<close> included), and leaves the stored tags as they
  were when the body has none. So a collection all of whose records have an array as
  tags is written back as such.
\<close>

theorem tags_stored_as_array:
  assumes "readEvents f = Inr (JArr es)"
  shows "(status (fst (post_events now r reqBody f)) = 201 \<longrightarrow>
           (\<exists>ev tv. post_events now r reqBody f =
                       (\<lparr>status = 201, body = ev\<rparr>, Json (JArr (es @ [ev])))
              \<and> field ev ''tags'' = Some (JArr tv)
              \<and> (\<forall>xs. map_of reqBody ''tags'' = Some (JArr xs) \<longrightarrow> tv = xs)
              \<and> (\<forall>v. map_of reqBody ''tags'' = Some v \<longrightarrow> \<not> isArray (Some v) \<longrightarrow>
                     truthy (Some v) \<longrightarrow> tv = [v])
              \<and> (\<forall>v. map_of reqBody ''tags'' = Some v \<longrightarrow> \<not> isArray (Some v) \<longrightarrow>
                     \<not> truthy (Some v) \<longrightarrow> tv = [])
              \<and> (map_of reqBody ''tags'' = None \<longrightarrow> tv = [])
              \<and> (list_all (\<lambda>e. isArray (field e ''tags'')) es \<longrightarrow>
                   list_all (\<lambda>e. isArray (field e ''tags'')) (es @ [ev]))))
       \<and> (status (fst (put_event i reqBody f)) = 200 \<longrightarrow>
           (\<exists>es' index. put_event i reqBody f =
                       (\<lparr>status = 200, body = es' ! index\<rparr>, Json (JArr es'))
              \<and> index < length es' \<and> length es' = length es
              \<and> (\<forall>xs. map_of reqBody ''tags'' = Some (JArr xs) \<longrightarrow>
                    field (es' ! index) ''tags'' = Some (JArr xs))
              \<and> (\<forall>v. map_of reqBody ''tags'' = Some v \<longrightarrow> \<not> isArray (Some v) \<longrightarrow>
                    field (es' ! index) ''tags'' = Some (JArr [v]))
              \<and> (map_of reqBody ''tags'' = None \<longrightarrow>
                    field (es' ! index) ''tags'' = field (es ! index) ''tags'')
              \<and> (list_all (\<lambda>e. isArray (field e ''tags'')) es \<longrightarrow>
                   list_all (\<lambda>e. isArray (field e ''tags'')) es')))"
proof (intro conjI impI)
  assume s: "status (fst (post_events now r reqBody f)) = 201"
  let ?ev = "newEvent (generateId now r) (map_of reqBody ''eventName'')
               (map_of reqBody ''date'') (map_of reqBody ''location'')
               (map_of reqBody ''description'') (map_of reqBody ''tags'')"
  from post_events_201 [OF s assms]
  have p: "post_events now r reqBody f = (\<lparr>status = 201, body = ?ev\<rparr>, Json (JArr (es @ [?ev])))"
    and t: "truthy (map_of reqBody ''eventName'')" "truthy (map_of reqBody ''date'')"
      "truthy (map_of reqBody ''location'')"
    by simp_all
  from t obtain n d l where "map_of reqBody ''eventName'' = Some n"
    "map_of reqBody ''date'' = Some d" "map_of reqBody ''location'' = Some l"
    by (blast dest: truthy_Some)
  then have ft: "field ?ev ''tags'' = Some (create_tags (map_of reqBody ''tags''))"
    by (simp add: newEvent_fields)
  from create_tags_cases [of "map_of reqBody ''tags''"] obtain tv where
    tvc: "create_tags (map_of reqBody ''tags'') = JArr tv
      \<and> (\<forall>xs. map_of reqBody ''tags'' = Some (JArr xs) \<longrightarrow> tv = xs)
      \<and> (\<forall>v. map_of reqBody ''tags'' = Some v \<longrightarrow> \<not> isArray (Some v) \<longrightarrow>
               truthy (Some v) \<longrightarrow> tv = [v])
      \<and> (\<forall>v. map_of reqBody ''tags'' = Some v \<longrightarrow> \<not> isArray (Some v) \<longrightarrow>
               \<not> truthy (Some v) \<longrightarrow> tv = [])
      \<and> (map_of reqBody ''tags'' = None \<longrightarrow> tv = [])"
    by (rule exE)
  note tv = tvc [THEN conjunct1]
  note c1 = tvc [THEN conjunct2, THEN conjunct1]
  note c2 = tvc [THEN conjunct2, THEN conjunct2, THEN conjunct1]
  note c3 = tvc [THEN conjunct2, THEN conjunct2, THEN conjunct2, THEN conjunct1]
  note c4 = tvc [THEN conjunct2, THEN conjunct2, THEN conjunct2, THEN conjunct2]
  from ft tv have ft': "field ?ev ''tags'' = Some (JArr tv)"
    by simp
  then have "list_all (\<lambda>e. isArray (field e ''tags'')) es \<longrightarrow>
               list_all (\<lambda>e. isArray (field e ''tags'')) (es @ [?ev])"
    by simp
  with p ft' c1 c2 c3 c4
  show "\<exists>ev tv. post_events now r reqBody f =
                       (\<lparr>status = 201, body = ev\<rparr>, Json (JArr (es @ [ev])))
              \<and> field ev ''tags'' = Some (JArr tv)
              \<and> (\<forall>xs. map_of reqBody ''tags'' = Some (JArr xs) \<longrightarrow> tv = xs)
              \<and> (\<forall>v. map_of reqBody ''tags'' = Some v \<longrightarrow> \<not> isArray (Some v) \<longrightarrow>
                     truthy (Some v) \<longrightarrow> tv = [v])
              \<and> (\<forall>v. map_of reqBody ''tags'' = Some v \<longrightarrow> \<not> isArray (Some v) \<longrightarrow>
                     \<not> truthy (Some v) \<longrightarrow> tv = [])
              \<and> (map_of reqBody ''tags'' = None \<longrightarrow> tv = [])
              \<and> (list_all (\<lambda>e. isArray (field e ''tags'')) es \<longrightarrow>
                   list_all (\<lambda>e. isArray (field e ''tags'')) (es @ [ev]))"
    by (intro exI [of _ ?ev] exI [of _ tv]) blast
next
  assume s: "status (fst (put_event i reqBody f)) = 200"
  from put_event_200 [OF s assms] obtain index where
    fi: "array_findIndex (has_id i) es = Inr (Some index)"
    and v: "\<not> truthy (map_of reqBody ''eventName'')" "\<not> truthy (map_of reqBody ''id'')"
      "map_of reqBody ''location'' \<noteq> None \<or> map_of reqBody ''description'' \<noteq> None
        \<or> map_of reqBody ''tags'' \<noteq> None \<or> map_of reqBody ''date'' \<noteq> None"
    by blast
  from findIndex_has_id [OF fi] obtain ps where
    len: "index < length es" and ps: "es ! index = JObj ps"
    by blast
  let ?e' = "apply_fields (map_of reqBody ''location'') (map_of reqBody ''description'')
               (map_of reqBody ''date'') (map_of reqBody ''tags'') (JObj ps)"
  let ?es' = "es[index := ?e']"
  have put: "put_event i reqBody f = (\<lparr>status = 200, body = ?es' ! index\<rparr>, Json (JArr ?es'))"
    using put_event_store [OF assms fi v] ps by simp
  have nth: "?es' ! index = ?e'"
    using len by simp
  have a: "\<forall>xs. map_of reqBody ''tags'' = Some (JArr xs) \<longrightarrow>
             field (?es' ! index) ''tags'' = Some (JArr xs)"
    using len by (simp add: field_apply_fields_tags)
  have b: "\<forall>v. map_of reqBody ''tags'' = Some v \<longrightarrow> \<not> isArray (Some v) \<longrightarrow>
             field (?es' ! index) ''tags'' = Some (JArr [v])"
    using len by (simp add: field_apply_fields_tags)
  have c: "map_of reqBody ''tags'' = None \<longrightarrow>
             field (?es' ! index) ''tags'' = field (es ! index) ''tags''"
  proof
    assume n: "map_of reqBody ''tags'' = None"
    have "field ?e' ''tags'' = map_of ps ''tags''"
      by (rule field_apply_fields_frame) (simp add: n)
    then show "field (?es' ! index) ''tags'' = field (es ! index) ''tags''"
      by (simp only: nth ps field.simps)
  qed
  have d: "list_all (\<lambda>e. isArray (field e ''tags'')) es \<longrightarrow>
             list_all (\<lambda>e. isArray (field e ''tags'')) ?es'"
  proof
    assume all: "list_all (\<lambda>e. isArray (field e ''tags'')) es"
    have "isArray (field ?e' ''tags'')"
    proof (cases "map_of reqBody ''tags''")
      case None
      with c nth have "field ?e' ''tags'' = field (es ! index) ''tags''" by simp
      moreover from all len have "isArray (field (es ! index) ''tags'')"
        by (simp add: list_all_length)
      ultimately show ?thesis by simp
    next
      case (Some v)
      then show ?thesis
        by (cases v) (simp_all add: field_apply_fields_tags)
    qed
    with all show "list_all (\<lambda>e. isArray (field e ''tags'')) ?es'"
      by (auto simp: list_all_iff dest!: set_update_subset_insert [THEN subsetD])
  qed
  from put len a b c d
  show "\<exists>es' index. put_event i reqBody f =
                       (\<lparr>status = 200, body = es' ! index\<rparr>, Json (JArr es'))
              \<and> index < length es' \<and> length es' = length es
              \<and> (\<forall>xs. map_of reqBody ''tags'' = Some (JArr xs) \<longrightarrow>
                    field (es' ! index) ''tags'' = Some (JArr xs))
              \<and> (\<forall>v. map_of reqBody ''tags'' = Some v \<longrightarrow> \<not> isArray (Some v) \<longrightarrow>
                    field (es' ! index) ''tags'' = Some (JArr [v]))
              \<and> (map_of reqBody ''tags'' = None \<longrightarrow>
                    field (es' ! index) ''tags'' = field (es ! index) ''tags'')
              \<and> (list_all (\<lambda>e. isArray (field e ''tags'')) es \<longrightarrow>
                   list_all (\<lambda>e. isArray (field e ''tags'')) es')"
    by (intro exI [of _ ?es'] exI [of _ index]) simp
qed

theorem tags_stored_as_array_witness:
  "post_events 1700000000000 42
     [(''eventName'', JStr ''Launch''), (''date'', JStr ''2025-06-01''),
      (''location'', JStr ''Hall''), (''tags'', JStr ''music'')] Missing =
     (\<lparr>status = 201,
       body = JObj [(''id'', JStr ''1700000000000-42''), (''eventName'', JStr ''Launch''),
                    (''date'', JStr ''2025-06-01''), (''location'', JStr ''Hall''),
                    (''description'', JStr []), (''tags'', JArr [JStr ''music''])]\<rparr>,
      Json (JArr [JObj [(''id'', JStr ''1700000000000-42''), (''eventName'', JStr ''Launch''),
                        (''date'', JStr ''2025-06-01''), (''location'', JStr ''Hall''),
                        (''description'', JStr []), (''tags'', JArr [JStr ''music''])]]))
   \<and> put_event ''1700000000000-42'' [(''tags'', JNull)]
     (Json (JArr [JObj [(''id'', JStr ''1700000000000-42''), (''eventName'', JStr ''Launch''),
                        (''date'', JStr ''2025-06-01''), (''location'', JStr ''Hall''),
                        (''description'', JStr []), (''tags'', JArr [JStr ''music''])]])) =
     (\<lparr>status = 200,
       body = JObj [(''id'', JStr ''1700000000000-42''), (''eventName'', JStr ''Launch''),
                    (''date'', JStr ''2025-06-01''), (''location'', JStr ''Hall''),
                    (''description'', JStr []), (''tags'', JArr [JNull])]\<rparr>,
      Json (JArr [JObj [(''id'', JStr ''1700000000000-42''), (''eventName'', JStr ''Launch''),
                        (''date'', JStr ''2025-06-01''), (''location'', JStr ''Hall''),
                        (''description'', JStr []), (''tags'', JArr [JNull])]]))
   \<and> (\<exists>ev tv. post_events 1700000000000 42
         [(''eventName'', JStr ''Launch''), (''date'', JStr ''2025-06-01''),
          (''location'', JStr ''Hall''), (''tags'', JStr ''music'')] Missing =
           (\<lparr>status = 201, body = ev\<rparr>, Json (JArr ([] @ [ev])))
         \<and> field ev ''tags'' = Some (JArr tv))"
proof -
  let ?body = "[(''eventName'', JStr ''Launch''), (''date'', JStr ''2025-06-01''),
                (''location'', JStr ''Hall''), (''tags'', JStr ''music'')]"
  have r: "readEvents Missing = Inr (JArr [])"
    by (simp add: readEvents_def)
  have p: "post_events 1700000000000 42 ?body Missing =
     (\<lparr>status = 201,
       body = JObj [(''id'', JStr ''1700000000000-42''), (''eventName'', JStr ''Launch''),
                    (''date'', JStr ''2025-06-01''), (''location'', JStr ''Hall''),
                    (''description'', JStr []), (''tags'', JArr [JStr ''music''])]\<rparr>,
      Json (JArr [JObj [(''id'', JStr ''1700000000000-42''), (''eventName'', JStr ''Launch''),
                        (''date'', JStr ''2025-06-01''), (''location'', JStr ''Hall''),
                        (''description'', JStr []), (''tags'', JArr [JStr ''music''])]]))"
    by (simp add: post_events_def readEvents_def writeEvents_def same_name_date_def newEvent_def
        generateId_def dec.simps digit_def Let_def)
  then have s: "status (fst (post_events 1700000000000 42 ?body Missing)) = 201"
    by simp
  from tags_stored_as_array [OF r, THEN conjunct1, rule_format, OF s]
  obtain ev tv where
    e: "post_events 1700000000000 42 ?body Missing =
          (\<lparr>status = 201, body = ev\<rparr>, Json (JArr ([] @ [ev])))
        \<and> field ev ''tags'' = Some (JArr tv)"
    by blast
  have u: "put_event ''1700000000000-42'' [(''tags'', JNull)]
     (Json (JArr [JObj [(''id'', JStr ''1700000000000-42''), (''eventName'', JStr ''Launch''),
                        (''date'', JStr ''2025-06-01''), (''location'', JStr ''Hall''),
                        (''description'', JStr []), (''tags'', JArr [JStr ''music''])]])) =
     (\<lparr>status = 200,
       body = JObj [(''id'', JStr ''1700000000000-42''), (''eventName'', JStr ''Launch''),
                    (''date'', JStr ''2025-06-01''), (''location'', JStr ''Hall''),
                    (''description'', JStr []), (''tags'', JArr [JNull])]\<rparr>,
      Json (JArr [JObj [(''id'', JStr ''1700000000000-42''), (''eventName'', JStr ''Launch''),
                        (''date'', JStr ''2025-06-01''), (''location'', JStr ''Hall''),
                        (''description'', JStr []), (''tags'', JArr [JNull])]]))"
    by (simp add: put_event_def readEvents_def writeEvents_def has_id_def apply_fields_def Let_def)
  from e have "\<exists>ev tv. post_events 1700000000000 42 ?body Missing =
           (\<lparr>status = 201, body = ev\<rparr>, Json (JArr ([] @ [ev])))
         \<and> field ev ''tags'' = Some (JArr tv)"
    by (intro exI)
  with p u show ?thesis
    by (intro conjI)
qed

end
